theory Spec2Isabelle
  imports Complex_Main
begin

section \<open>Python values and the operations the scripts apply to them\<close>

text \<open>
  Both scripts exchange JSON texts with a server. A decoded JSON text is a Python value:
  \<^verbatim>\<open>None\<close>, a bool, an int, a float, a str, a list or a dict. A dict is kept as
  the list of its items in insertion order; a lookup takes the first item with the key.
  Python floats are idealised as real numbers: their arithmetic is exact here.
\<close>

datatype pyval =
    PNone
  | PBool bool
  | PInt int
  | PFloat real
  | PStr string
  | PList "pyval list"
  | PDict "(string \<times> pyval) list"

datatype py_exn =
    KeyError
  | IndexError
  | TypeError
  | AttributeError
  | JSONDecodeError
  | TimeoutError
  | ConnectionClosed

text \<open>
  A call of the simulator either returns, raises, or waits for ever on a \<^verbatim>\<open>recv\<close>
  that no frame answers (the simulator sets no timeout): \<open>Blocked\<close>.
\<close>

datatype failure = Raised py_exn | Blocked

text \<open>The truth value Python gives a value in \<^verbatim>\<open>if x:\<close> and \<^verbatim>\<open>x and y\<close>.\<close>

fun truthy :: "pyval \<Rightarrow> bool" where
  "truthy PNone = False"
| "truthy (PBool b) = b"
| "truthy (PInt i) = (i \<noteq> 0)"
| "truthy (PFloat r) = (r \<noteq> 0)"
| "truthy (PStr s) = (s \<noteq> [])"
| "truthy (PList xs) = (xs \<noteq> [])"
| "truthy (PDict kvs) = (kvs \<noteq> [])"

text \<open>
  \<^verbatim>\<open>x[i]\<close> for a literal index \<open>i \<ge> 0\<close>. The keys of a decoded JSON object are
  strings, so an int is never a key of a dict.
\<close>

fun subscript_int :: "pyval \<Rightarrow> nat \<Rightarrow> py_exn + pyval" where
  "subscript_int (PList xs) i = (if i < length xs then Inr (xs ! i) else Inl IndexError)"
| "subscript_int (PStr s) i = (if i < length s then Inr (PStr [s ! i]) else Inl IndexError)"
| "subscript_int (PDict kvs) i = Inl KeyError"
| "subscript_int v i = Inl TypeError"

text \<open>\<^verbatim>\<open>x["name"]\<close>.\<close>

fun subscript_str :: "pyval \<Rightarrow> string \<Rightarrow> py_exn + pyval" where
  "subscript_str (PDict kvs) k = (case map_of kvs k of None \<Rightarrow> Inl KeyError | Some v \<Rightarrow> Inr v)"
| "subscript_str v k = Inl TypeError"

text \<open>\<^verbatim>\<open>x.get("name", default)\<close>: only a dict has the method.\<close>

fun dict_get :: "pyval \<Rightarrow> string \<Rightarrow> pyval \<Rightarrow> py_exn + pyval" where
  "dict_get (PDict kvs) k d = Inr (case map_of kvs k of None \<Rightarrow> d | Some v \<Rightarrow> v)"
| "dict_get v k d = Inl AttributeError"

text \<open>\<^verbatim>\<open>x == n\<close> for an int literal and \<^verbatim>\<open>x == "s"\<close> for a str literal.\<close>

fun eq_int :: "pyval \<Rightarrow> int \<Rightarrow> bool" where
  "eq_int (PInt i) n = (i = n)"
| "eq_int (PFloat r) n = (r = of_int n)"
| "eq_int (PBool b) n = ((if b then 1 else 0) = n)"
| "eq_int v n = False"

fun eq_str :: "pyval \<Rightarrow> string \<Rightarrow> bool" where
  "eq_str (PStr s) t = (s = t)"
| "eq_str v t = False"

text \<open>
  The numbers the simulator hands to \<^verbatim>\<open>send_meter_values\<close>: every call site passes
  ints or floats, and \<^verbatim>\<open>None\<close> for an argument left out.
\<close>

datatype number = NInt int | NFloat real

fun nonzero :: "number \<Rightarrow> bool" where
  "nonzero (NInt i) = (i \<noteq> 0)"
| "nonzero (NFloat r) = (r \<noteq> 0)"

text \<open>
  \<^verbatim>\<open>str(n)\<close>. For an int it is the decimal numeral. For a float it is Python's
  shortest round-trip representation, which is not part of the scripts: it is the
  parameter \<open>float_repr\<close>.
\<close>

definition digit :: "nat \<Rightarrow> char" where
  "digit d = ''0123456789'' ! d"

function str_nat :: "nat \<Rightarrow> string" where
  "str_nat n = (if n < 10 then [digit n] else str_nat (n div 10) @ [digit (n mod 10)])"
  by pat_completeness auto
termination
  by (relation "measure id") auto

declare str_nat.simps [simp del]

definition str_int :: "int \<Rightarrow> string" where
  "str_int i = (if i < 0 then CHR ''-'' # str_nat (nat (- i)) else str_nat (nat i))"

fun str :: "(real \<Rightarrow> string) \<Rightarrow> number \<Rightarrow> string" where
  "str float_repr (NInt i) = str_int i"
| "str float_repr (NFloat r) = float_repr r"

section \<open>The connection\<close>

text \<open>
  The websocket is outside the scripts. Its part in a run is a script of the frames the
  server delivers, in order, and a log of what the run did: the messages it sent and the
  pauses it made. A received text is kept as what \<^verbatim>\<open>json.loads\<close> makes of it: a
  value, or nothing when the text is not JSON.
\<close>

datatype frame = Message "pyval option" | Closed

datatype action = Sent pyval | Slept real

record world =
  trace :: "action list"
  inbound :: "frame list"

definition ws_send :: "pyval \<Rightarrow> 'a world_scheme \<Rightarrow> 'a world_scheme" where
  "ws_send message w = w\<lparr>trace := trace w @ [Sent message]\<rparr>"

definition sleep :: "real \<Rightarrow> 'a world_scheme \<Rightarrow> 'a world_scheme" where
  "sleep seconds w = w\<lparr>trace := trace w @ [Slept seconds]\<rparr>"

definition ws_recv :: "'a world_scheme \<Rightarrow> (failure + pyval option) \<times> 'a world_scheme" where
  "ws_recv w =
     (case inbound w of
        [] \<Rightarrow> (Inl Blocked, w)
      | Closed # rest \<Rightarrow> (Inl (Raised ConnectionClosed), w\<lparr>inbound := rest\<rparr>)
      | Message text # rest \<Rightarrow> (Inr text, w\<lparr>inbound := rest\<rparr>))"

definition json_loads :: "pyval option \<Rightarrow> py_exn + pyval" where
  "json_loads text = (case text of None \<Rightarrow> Inl JSONDecodeError | Some v \<Rightarrow> Inr v)"

section \<open>The meter value simulator\<close>

record simulator = world +
  transaction_id :: pyval

text \<open>
  The parameters \<open>request_id\<close> and \<open>utcnow\<close> are what \<^verbatim>\<open>str(uuid.uuid4())\<close> and
  \<^verbatim>\<open>datetime.utcnow().isoformat()\<close> give at the call.
\<close>

definition sampled_value :: "string \<Rightarrow> string \<Rightarrow> string \<Rightarrow> pyval" where
  "sampled_value v measurand unit =
     PDict [(''value'', PStr v), (''measurand'', PStr measurand), (''unit'', PStr unit)]"

text \<open>
  An optional sample: \<^verbatim>\<open>if x: sampled_values.append({...})\<close>. Nothing is appended
  for \<^verbatim>\<open>None\<close> and for a zero.
\<close>

fun optional_sample :: "(real \<Rightarrow> string) \<Rightarrow> number option \<Rightarrow> string \<Rightarrow> string \<Rightarrow> pyval list" where
  "optional_sample float_repr None measurand unit = []"
| "optional_sample float_repr (Some n) measurand unit =
     (if nonzero n then [sampled_value (str float_repr n) measurand unit] else [])"

definition sampled_values ::
  "(real \<Rightarrow> string) \<Rightarrow> number \<Rightarrow> number \<Rightarrow> number option \<Rightarrow> number option \<Rightarrow> number option
     \<Rightarrow> pyval list" where
  "sampled_values float_repr energy_wh power_w current_a voltage_v temperature_c =
     [sampled_value (str float_repr energy_wh) ''Energy.Active.Import.Register'' ''Wh'',
      sampled_value (str float_repr power_w) ''Power.Active.Import'' ''W'']
     @ optional_sample float_repr current_a ''Current.Import'' ''A''
     @ optional_sample float_repr voltage_v ''Voltage'' ''V''
     @ optional_sample float_repr temperature_c ''Temperature'' ''Celsius''"

definition message_data :: "string \<Rightarrow> pyval list \<Rightarrow> pyval \<Rightarrow> (string \<times> pyval) list" where
  "message_data utcnow samples tid =
     [(''connectorId'', PInt 1),
      (''meterValue'', PList [PDict [(''timestamp'', PStr (utcnow @ ''Z'')),
                                     (''sampledValue'', PList samples)]])]
     @ (if truthy tid then [(''transactionId'', tid)] else [])"

definition send_meter_values ::
  "(real \<Rightarrow> string) \<Rightarrow> string \<Rightarrow> string \<Rightarrow> number \<Rightarrow> number
     \<Rightarrow> number option \<Rightarrow> number option \<Rightarrow> number option
     \<Rightarrow> simulator \<Rightarrow> (failure + unit) \<times> simulator" where
  "send_meter_values float_repr request_id utcnow energy_wh power_w current_a voltage_v
       temperature_c sim =
     (let samples = sampled_values float_repr energy_wh power_w current_a voltage_v temperature_c;
          message = PList [PInt 2, PStr request_id, PStr ''MeterValues'',
                           PDict (message_data utcnow samples (transaction_id sim))]
      in case ws_recv (ws_send message sim) of
           (Inl f, sim') \<Rightarrow> (Inl f, sim')
         | (Inr response, sim') \<Rightarrow> (Inr (), sim'))"

definition stop_transaction ::
  "string \<Rightarrow> string \<Rightarrow> int \<Rightarrow> simulator \<Rightarrow> (failure + unit) \<times> simulator" where
  "stop_transaction request_id utcnow meter_stop sim =
     (if \<not> truthy (transaction_id sim) then (Inr (), sim)
      else
        let message = PList [PInt 2, PStr request_id, PStr ''StopTransaction'',
                             PDict [(''transactionId'', transaction_id sim),
                                    (''meterStop'', PInt meter_stop),
                                    (''timestamp'', PStr (utcnow @ ''Z''))]]
        in case ws_recv (ws_send message sim) of
             (Inl f, sim') \<Rightarrow> (Inl f, sim')
           | (Inr response, sim') \<Rightarrow> (Inr (), sim'))"

definition start_transaction ::
  "string \<Rightarrow> string \<Rightarrow> simulator \<Rightarrow> (failure + bool) \<times> simulator" where
  "start_transaction request_id utcnow sim =
     (let message = PList [PInt 2, PStr request_id, PStr ''StartTransaction'',
                           PDict [(''connectorId'', PInt 1),
                                  (''idTag'', PStr ''TEST-TAG''),
                                  (''meterStart'', PInt 1000),
                                  (''timestamp'', PStr (utcnow @ ''Z''))]]
      in case ws_recv (ws_send message sim) of
           (Inl f, sim') \<Rightarrow> (Inl f, sim')
         | (Inr response, sim') \<Rightarrow>
             (case json_loads response of
                Inl e \<Rightarrow> (Inl (Raised e), sim')
              | Inr response_data \<Rightarrow>
                  (case subscript_int response_data 0 of
                     Inl e \<Rightarrow> (Inl (Raised e), sim')
                   | Inr code \<Rightarrow>
                       if eq_int code 3 then
                         (case subscript_int response_data 2 of
                            Inl e \<Rightarrow> (Inl (Raised e), sim')
                          | Inr payload \<Rightarrow>
                              (case subscript_str payload ''transactionId'' of
                                 Inl e \<Rightarrow> (Inl (Raised e), sim')
                               | Inr tid \<Rightarrow> (Inr True, sim'\<lparr>transaction_id := tid\<rparr>)))
                       else (Inr False, sim'))))"

subsection \<open>The charging session\<close>

text \<open>
  \<^verbatim>\<open>random.uniform(a, b)\<close> is \<^verbatim>\<open>a + (b - a) * random()\<close>; the draw \<open>u\<close> of
  \<^verbatim>\<open>random()\<close>, a number from 0 to 1, comes from the environment.
\<close>

definition uniform :: "real \<Rightarrow> real \<Rightarrow> real \<Rightarrow> real" where
  "uniform a b u = a + (b - a) * u"

text \<open>\<^verbatim>\<open>int(x)\<close> cuts the fraction off, towards zero.\<close>

definition py_int :: "real \<Rightarrow> int" where
  "py_int x = (if x < 0 then \<lceil>x\<rceil> else \<lfloor>x\<rfloor>)"

text \<open>\<^verbatim>\<open>round(x, 1)\<close>: the nearest multiple of a tenth, a tie going to the even one.\<close>

definition round_half_even :: "real \<Rightarrow> int" where
  "round_half_even x =
     (let f = \<lfloor>x\<rfloor>
      in if x - of_int f < 1 / 2 then f
         else if 1 / 2 < x - of_int f then f + 1
         else if even f then f else f + 1)"

definition round1 :: "real \<Rightarrow> real" where
  "round1 x = of_int (round_half_even (x * 10)) / 10"

text \<open>
  What the environment gives one pass of the loop: the reading of \<^verbatim>\<open>time.time()\<close>
  at the loop test, the three draws of \<^verbatim>\<open>random()\<close>, and the request id and
  timestamp of the MeterValues call.
\<close>

record tick_env =
  clock :: real
  draw_power :: real
  draw_temperature :: real
  draw_voltage :: real
  tick_id :: string
  tick_utcnow :: string

definition base_power :: real where
  "base_power = 7400"

definition voltage :: real where
  "voltage = 230"

text \<open>The values one pass of the loop computes before it reports them.\<close>

record sample =
  energy_wh :: real
  power_w :: real
  current_a :: real
  temperature_c :: real
  voltage_v :: real

definition tick :: "real \<Rightarrow> real \<Rightarrow> tick_env \<Rightarrow> sample" where
  "tick interval_seconds energy env =
     (let power_variation = uniform (- 500) 500 (draw_power env);
          power = base_power + power_variation;
          energy_increment = (power * interval_seconds) / 3600
      in \<lparr>energy_wh = energy + energy_increment,
          power_w = power,
          current_a = power / voltage,
          temperature_c = 25 + uniform (- 5) 10 (draw_temperature env),
          voltage_v = voltage + uniform (- 5) 5 (draw_voltage env)\<rparr>)"

text \<open>
  The \<^verbatim>\<open>while\<close> loop of \<^verbatim>\<open>simulate_charging_session\<close>. It runs on the script of
  its passes and returns the local \<^verbatim>\<open>energy_wh\<close> at the exit. A script that ends
  before the clock passes the duration leaves the loop waiting: \<open>Blocked\<close>.
\<close>

fun charging_loop ::
  "(real \<Rightarrow> string) \<Rightarrow> real \<Rightarrow> real \<Rightarrow> real \<Rightarrow> real \<Rightarrow> tick_env list \<Rightarrow> simulator
     \<Rightarrow> (failure + real) \<times> simulator" where
  "charging_loop float_repr start_time duration_seconds interval_seconds energy [] sim =
     (Inl Blocked, sim)"
| "charging_loop float_repr start_time duration_seconds interval_seconds energy (env # envs) sim =
     (if clock env - start_time < duration_seconds then
        let s = tick interval_seconds energy env
        in case send_meter_values float_repr (tick_id env) (tick_utcnow env)
                  (NInt (py_int (energy_wh s)))
                  (NInt (py_int (power_w s)))
                  (Some (NFloat (round1 (current_a s))))
                  (Some (NFloat (round1 (voltage_v s))))
                  (Some (NFloat (round1 (temperature_c s)))) sim of
             (Inl f, sim') \<Rightarrow> (Inl f, sim')
           | (Inr returned, sim') \<Rightarrow>
               charging_loop float_repr start_time duration_seconds interval_seconds
                 (energy_wh s) envs (sleep interval_seconds sim')
      else (Inr energy, sim))"

text \<open>
  The environment of a whole session: the request ids and timestamps of the
  StartTransaction and StopTransaction calls, the clock at the start, and the passes.
\<close>

record session_env =
  start_id :: string
  start_utcnow :: string
  start_clock :: real
  passes :: "tick_env list"
  stop_id :: string
  stop_utcnow :: string

definition simulate_charging_session ::
  "(real \<Rightarrow> string) \<Rightarrow> session_env \<Rightarrow> real \<Rightarrow> real \<Rightarrow> simulator
     \<Rightarrow> (failure + unit) \<times> simulator" where
  "simulate_charging_session float_repr env duration_seconds interval_seconds sim =
     (case start_transaction (start_id env) (start_utcnow env) sim of
        (Inl f, sim1) \<Rightarrow> (Inl f, sim1)
      | (Inr started, sim1) \<Rightarrow>
          (case charging_loop float_repr (start_clock env) duration_seconds interval_seconds
                  1000 (passes env) sim1 of
             (Inl f, sim2) \<Rightarrow> (Inl f, sim2)
           | (Inr energy, sim2) \<Rightarrow>
               stop_transaction (stop_id env) (stop_utcnow env) (py_int energy) sim2))"

section \<open>The configuration validator\<close>

record validator = world +
  test_results :: "(string \<times> bool) list"

text \<open>
  \<^verbatim>\<open>asyncio.wait_for(self.websocket.recv(), timeout=10.0)\<close>: a frame that never
  comes is a \<^verbatim>\<open>TimeoutError\<close>.
\<close>

definition recv_wait_for :: "'a world_scheme \<Rightarrow> (py_exn + pyval option) \<times> 'a world_scheme" where
  "recv_wait_for w =
     (case ws_recv w of
        (Inl Blocked, w') \<Rightarrow> (Inl TimeoutError, w')
      | (Inl (Raised e), w') \<Rightarrow> (Inl e, w')
      | (Inr text, w') \<Rightarrow> (Inr text, w'))"

text \<open>
  The \<^verbatim>\<open>try\<close> block the two \<^verbatim>\<open>send_\<close> functions share: send the call, wait for
  the next frame, decode it; both \<^verbatim>\<open>except\<close> branches return \<^verbatim>\<open>{}\<close>.
\<close>

definition exchange :: "pyval \<Rightarrow> 'a world_scheme \<Rightarrow> pyval \<times> 'a world_scheme" where
  "exchange message w =
     (case recv_wait_for (ws_send message w) of
        (Inl e, w') \<Rightarrow> (PDict [], w')
      | (Inr response, w') \<Rightarrow>
          (case json_loads response of
             Inl e \<Rightarrow> (PDict [], w')
           | Inr v \<Rightarrow> (v, w')))"

definition send_get_configuration ::
  "string \<Rightarrow> string list option \<Rightarrow> 'a world_scheme \<Rightarrow> pyval \<times> 'a world_scheme" where
  "send_get_configuration request_id keys w =
     (let payload = (case keys of
                       None \<Rightarrow> []
                     | Some ks \<Rightarrow> if ks \<noteq> [] then [(''key'', PList (map PStr ks))] else [])
      in exchange (PList [PInt 2, PStr request_id, PStr ''GetConfiguration'', PDict payload]) w)"

definition send_change_configuration ::
  "string \<Rightarrow> string \<Rightarrow> pyval \<Rightarrow> 'a world_scheme \<Rightarrow> pyval \<times> 'a world_scheme" where
  "send_change_configuration request_id key val w =
     exchange (PList [PInt 2, PStr request_id, PStr ''ChangeConfiguration'',
                      PDict [(''key'', PStr key), (''value'', val)]]) w"

text \<open>\<^verbatim>\<open>response and response[0] == 3\<close>\<close>

definition is_call_result :: "pyval \<Rightarrow> py_exn + bool" where
  "is_call_result response =
     (if \<not> truthy response then Inr False
      else case subscript_int response 0 of
             Inl e \<Rightarrow> Inl e
           | Inr code \<Rightarrow> Inr (eq_int code 3))"

text \<open>\<^verbatim>\<open>response[2].get(name, default)\<close>\<close>

definition payload_get :: "pyval \<Rightarrow> string \<Rightarrow> pyval \<Rightarrow> py_exn + pyval" where
  "payload_get response name dflt =
     (case subscript_int response 2 of
        Inl e \<Rightarrow> Inl e
      | Inr payload \<Rightarrow> dict_get payload name dflt)"

text \<open>\<^verbatim>\<open>config_keys and config_keys[0].get("value") == value\<close>\<close>

definition first_value_is :: "pyval \<Rightarrow> string \<Rightarrow> py_exn + bool" where
  "first_value_is config_keys val =
     (if \<not> truthy config_keys then Inr False
      else case subscript_int config_keys 0 of
             Inl e \<Rightarrow> Inl e
           | Inr entry \<Rightarrow>
               (case dict_get entry ''value'' PNone of
                  Inl e \<Rightarrow> Inl e
                | Inr found \<Rightarrow> Inr (eq_str found val)))"

definition record_result :: "string \<Rightarrow> bool \<Rightarrow> validator \<Rightarrow> validator" where
  "record_result name passed v = v\<lparr>test_results := test_results v @ [(name, passed)]\<rparr>"

text \<open>\<^verbatim>\<open>status in ["...", "..."]\<close>\<close>

definition status_in :: "pyval \<Rightarrow> string list \<Rightarrow> bool" where
  "status_in status expected = list_ex (eq_str status) expected"

text \<open>
  The tests draw several request ids: \<open>uuid4 k\<close> is the id of the \<open>k\<close>-th call a test
  makes, counted from 0.
\<close>

definition test_readonly_rejection ::
  "(nat \<Rightarrow> string) \<Rightarrow> validator \<Rightarrow> (py_exn + bool) \<times> validator" where
  "test_readonly_rejection uuid4 v =
     (let (response, v1) =
            send_change_configuration (uuid4 0) ''ChargeProfileMaxStackLevel'' (PStr ''20'') v
      in case is_call_result response of
           Inl e \<Rightarrow> (Inl e, v1)
         | Inr False \<Rightarrow> (Inr False, record_result ''Read-only rejection'' False v1)
         | Inr True \<Rightarrow>
             (case payload_get response ''status'' PNone of
                Inl e \<Rightarrow> (Inl e, v1)
              | Inr status \<Rightarrow>
                  if eq_str status ''Rejected''
                  then (Inr True, record_result ''Read-only rejection'' True v1)
                  else (Inr False, record_result ''Read-only rejection'' False v1)))"

definition test_cases :: "(string \<times> string \<times> string) list" where
  "test_cases =
     [(''HeartbeatInterval'', ''not-a-number'', ''Invalid integer''),
      (''LightIntensity'', ''150'', ''Out of range (0-100)''),
      (''LocalAuthorizeOffline'', ''yes'', ''Invalid boolean''),
      (''UnknownKey'', ''value'', ''Unknown key'')]"

text \<open>
  The \<^verbatim>\<open>for\<close> loop of \<^verbatim>\<open>test_invalid_values\<close> over the cases left, with the
  number \<open>k\<close> of calls made so far and the flag \<^verbatim>\<open>all_passed\<close>.
\<close>

fun invalid_values_loop ::
  "(nat \<Rightarrow> string) \<Rightarrow> nat \<Rightarrow> (string \<times> string \<times> string) list \<Rightarrow> bool \<Rightarrow> validator
     \<Rightarrow> (py_exn + bool) \<times> validator" where
  "invalid_values_loop uuid4 k [] all_passed v = (Inr all_passed, v)"
| "invalid_values_loop uuid4 k ((key, val, description) # rest) all_passed v =
     (let (response, v1) = send_change_configuration (uuid4 k) key (PStr val) v
      in case is_call_result response of
           Inl e \<Rightarrow> (Inl e, v1)
         | Inr False \<Rightarrow> invalid_values_loop uuid4 (Suc k) rest False v1
         | Inr True \<Rightarrow>
             (case payload_get response ''status'' PNone of
                Inl e \<Rightarrow> (Inl e, v1)
              | Inr status \<Rightarrow>
                  if status_in status [''Rejected'', ''NotSupported'']
                  then invalid_values_loop uuid4 (Suc k) rest all_passed v1
                  else invalid_values_loop uuid4 (Suc k) rest False v1))"

definition test_invalid_values ::
  "(nat \<Rightarrow> string) \<Rightarrow> validator \<Rightarrow> (py_exn + bool) \<times> validator" where
  "test_invalid_values uuid4 v =
     (case invalid_values_loop uuid4 0 test_cases True v of
        (Inl e, v') \<Rightarrow> (Inl e, v')
      | (Inr all_passed, v') \<Rightarrow>
          (Inr all_passed, record_result ''Invalid value rejection'' all_passed v'))"

definition test_persistence ::
  "(nat \<Rightarrow> string) \<Rightarrow> validator \<Rightarrow> (py_exn + bool) \<times> validator" where
  "test_persistence uuid4 v =
     (let test_key = ''MeterValueSampleInterval'';
          test_value = ''45'';
          (response, v1) = send_change_configuration (uuid4 0) test_key (PStr test_value) v
      in case is_call_result response of
           Inl e \<Rightarrow> (Inl e, v1)
         | Inr False \<Rightarrow> (Inr False, v1)
         | Inr True \<Rightarrow>
             (case payload_get response ''status'' PNone of
                Inl e \<Rightarrow> (Inl e, v1)
              | Inr status \<Rightarrow>
                  if \<not> status_in status [''Accepted'', ''RebootRequired''] then (Inr False, v1)
                  else
                    let (response2, v2) =
                          send_get_configuration (uuid4 1) (Some [test_key]) (sleep 1 v1)
                    in case is_call_result response2 of
                         Inl e \<Rightarrow> (Inl e, v2)
                       | Inr False \<Rightarrow> (Inr False, v2)
                       | Inr True \<Rightarrow>
                           (case payload_get response2 ''configurationKey'' (PList []) of
                              Inl e \<Rightarrow> (Inl e, v2)
                            | Inr config_keys \<Rightarrow>
                                (case first_value_is config_keys test_value of
                                   Inl e \<Rightarrow> (Inl e, v2)
                                 | Inr True \<Rightarrow>
                                     (Inr True,
                                      record_result ''Configuration persistence'' True v2)
                                 | Inr False \<Rightarrow> (Inr False, v2)))))"

text \<open>
  The first step of \<^verbatim>\<open>test_change_configuration\<close>: the value to restore at the end,
  \<^verbatim>\<open>None\<close> when the first answer holds none.
\<close>

definition original_value :: "pyval \<Rightarrow> py_exn + pyval" where
  "original_value response =
     (case is_call_result response of
        Inl e \<Rightarrow> Inl e
      | Inr False \<Rightarrow> Inr PNone
      | Inr True \<Rightarrow>
          (case payload_get response ''configurationKey'' (PList []) of
             Inl e \<Rightarrow> Inl e
           | Inr config_keys \<Rightarrow>
               if truthy config_keys then
                 (case subscript_int config_keys 0 of
                    Inl e \<Rightarrow> Inl e
                  | Inr entry \<Rightarrow> dict_get entry ''value'' PNone)
               else Inr PNone))"

definition test_change_configuration ::
  "(nat \<Rightarrow> string) \<Rightarrow> validator \<Rightarrow> (py_exn + bool) \<times> validator" where
  "test_change_configuration uuid4 v =
     (let (response0, v0) = send_get_configuration (uuid4 0) (Some [''HeartbeatInterval'']) v
      in case original_value response0 of
           Inl e \<Rightarrow> (Inl e, v0)
         | Inr original \<Rightarrow>
             let new_value = ''900'';
                 (response, v1) =
                   send_change_configuration (uuid4 1) ''HeartbeatInterval'' (PStr new_value) v0
             in case is_call_result response of
                  Inl e \<Rightarrow> (Inl e, v1)
                | Inr False \<Rightarrow> (Inr False, record_result ''Change configuration'' False v1)
                | Inr True \<Rightarrow>
                    (case payload_get response ''status'' PNone of
                       Inl e \<Rightarrow> (Inl e, v1)
                     | Inr status \<Rightarrow>
                         if status_in status [''Accepted'', ''RebootRequired''] then
                           let (response2, v2) =
                                 send_get_configuration (uuid4 2) (Some [''HeartbeatInterval''])
                                   (sleep (1 / 2) v1)
                           in case is_call_result response2 of
                                Inl e \<Rightarrow> (Inl e, v2)
                              | Inr False \<Rightarrow>
                                  (Inr False, record_result ''Change configuration'' False v2)
                              | Inr True \<Rightarrow>
                                  (case payload_get response2 ''configurationKey'' (PList []) of
                                     Inl e \<Rightarrow> (Inl e, v2)
                                   | Inr config_keys \<Rightarrow>
                                       (case first_value_is config_keys new_value of
                                          Inl e \<Rightarrow> (Inl e, v2)
                                        | Inr True \<Rightarrow>
                                            let v3 = (if truthy original
                                                      then snd (send_change_configuration (uuid4 3)
                                                                  ''HeartbeatInterval'' original v2)
                                                      else v2)
                                            in (Inr True,
                                                record_result ''Change configuration'' True v3)
                                        | Inr False \<Rightarrow> (Inr False, v2)))
                         else (Inr False, v1)))"

text \<open>
  The keys that \<^verbatim>\<open>test_get_all_configuration\<close> expects the server to mark read-only
  (its local list \<^verbatim>\<open>readonly_keys\<close>).
\<close>

definition readonly_keys :: "string list" where
  "readonly_keys = [''ChargeProfileMaxStackLevel'', ''SupportedFeatureProfiles'']"

text \<open>
  The closed form that the specification gives for the cumulative energy: the starting
  energy plus the sum, over the passes made, of power * interval / 3600. It is compared
  with the loop below.
\<close>

definition energy_after :: "real \<Rightarrow> real \<Rightarrow> real list \<Rightarrow> real" where
  "energy_after start interval_seconds powers =
     start + (\<Sum>p\<leftarrow>powers. p * interval_seconds / 3600)"

section \<open>Facts about the connection and the decoding of answers\<close>

lemma recv_send_message:
  "inbound w = Message text # rest \<Longrightarrow>
   ws_recv (ws_send m w) = (Inr text, w\<lparr>trace := trace w @ [Sent m], inbound := rest\<rparr>)"
  by (simp add: ws_recv_def ws_send_def)

lemma recv_send_trace:
  "ws_recv (ws_send m w) = (r, w') \<Longrightarrow> trace w' = trace w @ [Sent m]"
  by (auto simp: ws_recv_def ws_send_def split: list.splits frame.splits)

lemma recv_send_transaction_id:
  "ws_recv (ws_send m sim) = (r, sim') \<Longrightarrow> transaction_id sim' = transaction_id sim"
  by (auto simp: ws_recv_def ws_send_def split: list.splits frame.splits)

lemma exchange_message:
  "inbound w = Message (Some r) # rest \<Longrightarrow>
   exchange m w = (r, w\<lparr>trace := trace w @ [Sent m], inbound := rest\<rparr>)"
  by (simp add: exchange_def recv_wait_for_def ws_recv_def ws_send_def json_loads_def)

lemma exchange_other:
  "\<nexists>r rest. inbound w = Message (Some r) # rest \<Longrightarrow> fst (exchange m w) = PDict []"
  by (auto simp: exchange_def recv_wait_for_def ws_recv_def ws_send_def json_loads_def
      split: list.splits frame.splits option.splits)

lemma exchange_trace:
  "trace (snd (exchange m w)) = trace w @ [Sent m]"
  by (auto simp: exchange_def recv_wait_for_def ws_recv_def ws_send_def json_loads_def
      split: list.splits frame.splits option.splits)

lemma eq_str_iff: "eq_str s t \<longleftrightarrow> s = PStr t"
  by (cases s) auto

lemma is_call_result_True:
  "is_call_result r = Inr True \<longleftrightarrow> (\<exists>code extra. r = PList (code # extra) \<and> eq_int code 3)"
  by (cases r) (auto simp: is_call_result_def neq_Nil_conv split: sum.splits if_splits)

lemma is_call_result_empty [simp]: "is_call_result (PDict []) = Inr False"
  by (simp add: is_call_result_def)

lemma payload_status:
  "payload_get (PList (code # extra)) name d = Inr s \<longleftrightarrow>
     (\<exists>rid payload extra'. extra = rid # PDict payload # extra' \<and>
        s = (case map_of payload name of None \<Rightarrow> d | Some x \<Rightarrow> x))"
proof (cases extra)
  case Nil
  then show ?thesis by (simp add: payload_get_def)
next
  case (Cons rid extra1)
  show ?thesis
  proof (cases extra1)
    case Nil
    with Cons show ?thesis by (simp add: payload_get_def)
  next
    case (Cons p extra')
    with \<open>extra = rid # extra1\<close> show ?thesis
      by (cases p) (auto simp: payload_get_def)
  qed
qed

lemma call_result_status:
  "is_call_result r = Inr True \<and> payload_get r name d = Inr s \<longleftrightarrow>
     (\<exists>code rid payload extra. r = PList (code # rid # PDict payload # extra) \<and> eq_int code 3 \<and>
        s = (case map_of payload name of None \<Rightarrow> d | Some x \<Rightarrow> x))"
  by (auto simp: is_call_result_True payload_status)

lemma call_result_status_is:
  "is_call_result r = Inr True \<and> payload_get r name PNone = Inr (PStr t) \<longleftrightarrow>
     (\<exists>code rid payload extra. r = PList (code # rid # PDict payload # extra) \<and> eq_int code 3 \<and>
        map_of payload name = Some (PStr t))"
proof -
  have "(case map_of payload name of None \<Rightarrow> PNone | Some x \<Rightarrow> x) = PStr t \<longleftrightarrow>
          map_of payload name = Some (PStr t)" for payload
    by (cases "map_of payload name") auto
  then show ?thesis
    unfolding call_result_status by (metis (lifting))
qed

lemma well_formed_result [simp]:
  "eq_int code 3 \<Longrightarrow> is_call_result (PList (code # rid # PDict payload # extra)) = Inr True"
  "payload_get (PList (code # rid # PDict payload # extra)) name d =
     Inr (case map_of payload name of None \<Rightarrow> d | Some x \<Rightarrow> x)"
  by (simp_all add: is_call_result_def payload_get_def)

section \<open>The calls and their answers\<close>

text \<open>
  C1 (as amended): no call compares the id of the incoming message with the id it drew.
  Whatever id the next decodable message carries, GetConfiguration and ChangeConfiguration
  return that message to the caller, MeterValues and StopTransaction take it as their
  answer, and StartTransaction reads the transaction id from it.
\<close>

theorem responses_not_correlated:
  assumes "inbound w = Message (Some response) # rest"
      and "inbound sim = Message (Some response) # rest'"
  shows "fst (send_get_configuration request_id keys w) = response
       \<and> fst (send_change_configuration request_id key val w) = response
       \<and> fst (send_meter_values float_repr request_id utcnow e p c u t sim) = Inr ()
       \<and> (truthy (transaction_id sim) \<longrightarrow>
            fst (stop_transaction request_id utcnow meter_stop sim) = Inr ())
       \<and> (\<forall>any_id tid. response = PList [PInt 3, any_id, PDict [(''transactionId'', tid)]] \<longrightarrow>
            fst (start_transaction request_id utcnow sim) = Inr True \<and>
            transaction_id (snd (start_transaction request_id utcnow sim)) = tid)"
  using assms
  by (simp add: send_get_configuration_def send_change_configuration_def exchange_message
        send_meter_values_def stop_transaction_def start_transaction_def Let_def
        recv_send_message json_loads_def)

theorem responses_not_correlated_witness:
  "fst (send_change_configuration ''call-1'' ''HeartbeatInterval'' (PStr ''900'')
          \<lparr>trace = [],
           inbound = [Message (Some (PList [PInt 3, PStr ''call-0'',
                                            PDict [(''transactionId'', PInt 9)]]))]\<rparr>)
     = PList [PInt 3, PStr ''call-0'', PDict [(''transactionId'', PInt 9)]] \<and>
   fst (stop_transaction ''call-1'' ''t'' 0
          \<lparr>trace = [],
           inbound = [Message (Some (PList [PInt 3, PStr ''call-0'',
                                            PDict [(''transactionId'', PInt 9)]]))],
           transaction_id = PInt 5\<rparr>) = Inr () \<and>
   transaction_id (snd (start_transaction ''call-1'' ''t''
          \<lparr>trace = [],
           inbound = [Message (Some (PList [PInt 3, PStr ''call-0'',
                                            PDict [(''transactionId'', PInt 9)]]))],
           transaction_id = PInt 5\<rparr>)) = PInt 9"
  using responses_not_correlated
          [of "\<lparr>trace = [],
                inbound = [Message (Some (PList [PInt 3, PStr ''call-0'',
                                                 PDict [(''transactionId'', PInt 9)]]))]\<rparr>"
              "PList [PInt 3, PStr ''call-0'', PDict [(''transactionId'', PInt 9)]]" "[]"
              "\<lparr>trace = [],
                inbound = [Message (Some (PList [PInt 3, PStr ''call-0'',
                                                 PDict [(''transactionId'', PInt 9)]]))],
                transaction_id = PInt 5\<rparr>"
              "[]" "''call-1''" None "''HeartbeatInterval''" "PStr ''900''"
              "\<lambda>r. ''0.0''" "''t''" "NInt 0" "NInt 0" None None None 0]
  by simp

text \<open>
  The claim as first stated fails: a ChangeConfiguration call with id \<open>call-1\<close> returns an
  answer that carries the id \<open>call-0\<close>, and a StartTransaction call with id \<open>call-1\<close>
  takes its transaction id from such an answer.
\<close>

theorem id_mismatch_counterexample:
  "fst (send_change_configuration ''call-1'' ''HeartbeatInterval'' (PStr ''900'')
          \<lparr>trace = [],
           inbound = [Message (Some (PList [PInt 3, PStr ''call-0'',
                                            PDict [(''status'', PStr ''Accepted'')]]))]\<rparr>)
     = PList [PInt 3, PStr ''call-0'', PDict [(''status'', PStr ''Accepted'')]] \<and>
   start_transaction ''call-1'' ''t''
          \<lparr>trace = [],
           inbound = [Message (Some (PList [PInt 3, PStr ''call-0'',
                                            PDict [(''transactionId'', PInt 9)]]))],
           transaction_id = PNone\<rparr>
     = (Inr True,
        \<lparr>trace = [Sent (PList [PInt 2, PStr ''call-1'', PStr ''StartTransaction'',
                         PDict [(''connectorId'', PInt 1), (''idTag'', PStr ''TEST-TAG''),
                                (''meterStart'', PInt 1000), (''timestamp'', PStr ''tZ'')]])],
         inbound = [], transaction_id = PInt 9\<rparr>)"
  by (simp add: send_change_configuration_def exchange_def recv_wait_for_def
        start_transaction_def Let_def ws_recv_def ws_send_def json_loads_def)

section \<open>The meter values message\<close>

lemma str_int_examples:
  "str_int 5000 = ''5000''" "str_int 3700 = ''3700''" "str_int 16 = ''16''"
  "str_int 230 = ''230''" "str_int 25 = ''25''"
  by (simp_all add: str_int_def str_nat.simps digit_def)

lemma send_meter_values_trace:
  "trace (snd (send_meter_values fr rid now e p c u t sim)) =
     trace sim @ [Sent (PList [PInt 2, PStr rid, PStr ''MeterValues'',
        PDict (message_data now (sampled_values fr e p c u t) (transaction_id sim))])]"
  unfolding send_meter_values_def Let_def
  by (auto split: prod.splits sum.splits dest: recv_send_trace)

lemma optional_sample_present:
  "(\<exists>s. sampled_value s m u \<in> set (optional_sample fr x m' u')) \<longleftrightarrow>
     m = m' \<and> u = u' \<and> x \<noteq> None \<and> x \<noteq> Some (NInt 0) \<and> x \<noteq> Some (NFloat 0)"
proof (cases x)
  case None
  then show ?thesis by simp
next
  case (Some n)
  then show ?thesis
    by (cases n) (auto simp: sampled_value_def)
qed

text \<open>
  C2: for the input (5000, 3700, 16, 230, 25) the MeterValues message that
  \<^verbatim>\<open>send_meter_values\<close> sends has the sampledValue list: Energy.Active.Import.Register
  "5000" Wh, Power.Active.Import "3700" W, Current.Import "16" A, Voltage "230" V and
  Temperature "25" Celsius.
\<close>

theorem send_meter_values_literal_example:
  "trace (snd (send_meter_values float_repr request_id utcnow
            (NInt 5000) (NInt 3700) (Some (NInt 16)) (Some (NInt 230)) (Some (NInt 25)) sim)) =
   trace sim @
   [Sent (PList [PInt 2, PStr request_id, PStr ''MeterValues'',
      PDict ([(''connectorId'', PInt 1),
              (''meterValue'', PList [PDict
                 [(''timestamp'', PStr (utcnow @ ''Z'')),
                  (''sampledValue'', PList
                     [PDict [(''value'', PStr ''5000''),
                             (''measurand'', PStr ''Energy.Active.Import.Register''),
                             (''unit'', PStr ''Wh'')],
                      PDict [(''value'', PStr ''3700''),
                             (''measurand'', PStr ''Power.Active.Import''),
                             (''unit'', PStr ''W'')],
                      PDict [(''value'', PStr ''16''),
                             (''measurand'', PStr ''Current.Import''),
                             (''unit'', PStr ''A'')],
                      PDict [(''value'', PStr ''230''),
                             (''measurand'', PStr ''Voltage''),
                             (''unit'', PStr ''V'')],
                      PDict [(''value'', PStr ''25''),
                             (''measurand'', PStr ''Temperature''),
                             (''unit'', PStr ''Celsius'')]])]])]
             @ (if truthy (transaction_id sim)
                then [(''transactionId'', transaction_id sim)] else []))])]"
  by (simp add: send_meter_values_trace message_data_def sampled_values_def sampled_value_def
        str_int_examples)

text \<open>
  C10: in every MeterValues message the Energy and Power entries are present; the
  Current.Import, Voltage and Temperature entries are present exactly when the argument
  is neither \<^verbatim>\<open>None\<close> nor 0 nor 0.0, so that a zero gives the same message as
  \<^verbatim>\<open>None\<close>; and the transactionId field is present exactly when the stored
  transaction id is truthy.
\<close>

theorem send_meter_values_optional_entries:
  "(\<exists>payload samples.
      trace (snd (send_meter_values float_repr request_id utcnow e p c u t sim)) =
        trace sim @ [Sent (PList [PInt 2, PStr request_id, PStr ''MeterValues'', PDict payload])]
    \<and> map_of payload ''meterValue'' =
        Some (PList [PDict [(''timestamp'', PStr (utcnow @ ''Z'')),
                            (''sampledValue'', PList samples)]])
    \<and> sampled_value (str float_repr e) ''Energy.Active.Import.Register'' ''Wh'' \<in> set samples
    \<and> sampled_value (str float_repr p) ''Power.Active.Import'' ''W'' \<in> set samples
    \<and> ((\<exists>s. sampled_value s ''Current.Import'' ''A'' \<in> set samples) \<longleftrightarrow>
          c \<noteq> None \<and> c \<noteq> Some (NInt 0) \<and> c \<noteq> Some (NFloat 0))
    \<and> ((\<exists>s. sampled_value s ''Voltage'' ''V'' \<in> set samples) \<longleftrightarrow>
          u \<noteq> None \<and> u \<noteq> Some (NInt 0) \<and> u \<noteq> Some (NFloat 0))
    \<and> ((\<exists>s. sampled_value s ''Temperature'' ''Celsius'' \<in> set samples) \<longleftrightarrow>
          t \<noteq> None \<and> t \<noteq> Some (NInt 0) \<and> t \<noteq> Some (NFloat 0))
    \<and> map_of payload ''transactionId'' =
        (if truthy (transaction_id sim) then Some (transaction_id sim) else None))
   \<and> send_meter_values float_repr request_id utcnow e p (Some (NInt 0)) u t sim =
       send_meter_values float_repr request_id utcnow e p None u t sim
   \<and> send_meter_values float_repr request_id utcnow e p (Some (NFloat 0)) u t sim =
       send_meter_values float_repr request_id utcnow e p None u t sim
   \<and> send_meter_values float_repr request_id utcnow e p c (Some (NInt 0)) t sim =
       send_meter_values float_repr request_id utcnow e p c None t sim
   \<and> send_meter_values float_repr request_id utcnow e p c (Some (NFloat 0)) t sim =
       send_meter_values float_repr request_id utcnow e p c None t sim
   \<and> send_meter_values float_repr request_id utcnow e p c u (Some (NInt 0)) sim =
       send_meter_values float_repr request_id utcnow e p c u None sim
   \<and> send_meter_values float_repr request_id utcnow e p c u (Some (NFloat 0)) sim =
       send_meter_values float_repr request_id utcnow e p c u None sim"
proof -
  let ?samples = "sampled_values float_repr e p c u t"
  let ?payload = "message_data utcnow ?samples (transaction_id sim)"
  have cur: "(\<exists>s. sampled_value s ''Current.Import'' ''A'' \<in> set ?samples) \<longleftrightarrow>
          c \<noteq> None \<and> c \<noteq> Some (NInt 0) \<and> c \<noteq> Some (NFloat 0)"
    using optional_sample_present [of "''Current.Import''" "''A''" float_repr c "''Current.Import''" "''A''"]
          optional_sample_present [of "''Current.Import''" "''A''" float_repr u "''Voltage''" "''V''"]
          optional_sample_present [of "''Current.Import''" "''A''" float_repr t "''Temperature''" "''Celsius''"]
    by (auto simp: sampled_values_def sampled_value_def)
  have vol: "(\<exists>s. sampled_value s ''Voltage'' ''V'' \<in> set ?samples) \<longleftrightarrow>
          u \<noteq> None \<and> u \<noteq> Some (NInt 0) \<and> u \<noteq> Some (NFloat 0)"
    using optional_sample_present [of "''Voltage''" "''V''" float_repr c "''Current.Import''" "''A''"]
          optional_sample_present [of "''Voltage''" "''V''" float_repr u "''Voltage''" "''V''"]
          optional_sample_present [of "''Voltage''" "''V''" float_repr t "''Temperature''" "''Celsius''"]
    by (auto simp: sampled_values_def sampled_value_def)
  have tem: "(\<exists>s. sampled_value s ''Temperature'' ''Celsius'' \<in> set ?samples) \<longleftrightarrow>
          t \<noteq> None \<and> t \<noteq> Some (NInt 0) \<and> t \<noteq> Some (NFloat 0)"
    using optional_sample_present [of "''Temperature''" "''Celsius''" float_repr c "''Current.Import''" "''A''"]
          optional_sample_present [of "''Temperature''" "''Celsius''" float_repr u "''Voltage''" "''V''"]
          optional_sample_present [of "''Temperature''" "''Celsius''" float_repr t "''Temperature''" "''Celsius''"]
    by (auto simp: sampled_values_def sampled_value_def)
  have en: "sampled_value (str float_repr e) ''Energy.Active.Import.Register'' ''Wh'' \<in> set ?samples"
       "sampled_value (str float_repr p) ''Power.Active.Import'' ''W'' \<in> set ?samples"
    by (simp_all add: sampled_values_def)
  have pl: "map_of ?payload ''meterValue'' =
        Some (PList [PDict [(''timestamp'', PStr (utcnow @ ''Z'')),
                            (''sampledValue'', PList ?samples)]])"
       "map_of ?payload ''transactionId'' =
        (if truthy (transaction_id sim) then Some (transaction_id sim) else None)"
    by (simp_all add: message_data_def)
  have first: "\<exists>payload samples.
      trace (snd (send_meter_values float_repr request_id utcnow e p c u t sim)) =
        trace sim @ [Sent (PList [PInt 2, PStr request_id, PStr ''MeterValues'', PDict payload])]
    \<and> map_of payload ''meterValue'' =
        Some (PList [PDict [(''timestamp'', PStr (utcnow @ ''Z'')),
                            (''sampledValue'', PList samples)]])
    \<and> sampled_value (str float_repr e) ''Energy.Active.Import.Register'' ''Wh'' \<in> set samples
    \<and> sampled_value (str float_repr p) ''Power.Active.Import'' ''W'' \<in> set samples
    \<and> ((\<exists>s. sampled_value s ''Current.Import'' ''A'' \<in> set samples) \<longleftrightarrow>
          c \<noteq> None \<and> c \<noteq> Some (NInt 0) \<and> c \<noteq> Some (NFloat 0))
    \<and> ((\<exists>s. sampled_value s ''Voltage'' ''V'' \<in> set samples) \<longleftrightarrow>
          u \<noteq> None \<and> u \<noteq> Some (NInt 0) \<and> u \<noteq> Some (NFloat 0))
    \<and> ((\<exists>s. sampled_value s ''Temperature'' ''Celsius'' \<in> set samples) \<longleftrightarrow>
          t \<noteq> None \<and> t \<noteq> Some (NInt 0) \<and> t \<noteq> Some (NFloat 0))
    \<and> map_of payload ''transactionId'' =
        (if truthy (transaction_id sim) then Some (transaction_id sim) else None)"
    apply (rule exI [of _ ?payload])
    apply (rule exI [of _ ?samples])
    using send_meter_values_trace [of float_repr request_id utcnow e p c u t sim] cur vol tem en pl
    by blast
  have zero: "sampled_values float_repr e p (Some (NInt 0)) u t = sampled_values float_repr e p None u t"
       "sampled_values float_repr e p (Some (NFloat 0)) u t = sampled_values float_repr e p None u t"
       "sampled_values float_repr e p c (Some (NInt 0)) t = sampled_values float_repr e p c None t"
       "sampled_values float_repr e p c (Some (NFloat 0)) t = sampled_values float_repr e p c None t"
       "sampled_values float_repr e p c u (Some (NInt 0)) = sampled_values float_repr e p c u None"
       "sampled_values float_repr e p c u (Some (NFloat 0)) = sampled_values float_repr e p c u None"
    by (simp_all add: sampled_values_def)
  show ?thesis
    using first by (simp add: send_meter_values_def zero)
qed

theorem send_meter_values_optional_entries_witness:
  "send_meter_values (\<lambda>r. ''2.5'') ''r'' ''t'' (NInt 5) (NInt 6) (Some (NInt 0)) None (Some (NFloat 0))
     \<lparr>trace = [], inbound = [], transaction_id = PInt 0\<rparr> =
   send_meter_values (\<lambda>r. ''2.5'') ''r'' ''t'' (NInt 5) (NInt 6) None None None
     \<lparr>trace = [], inbound = [], transaction_id = PInt 0\<rparr>"
  using send_meter_values_optional_entries
          [of "\<lambda>r. ''2.5''" "''r''" "''t''" "NInt 5" "NInt 6" "Some (NInt 0)" None "Some (NFloat 0)"
              "\<lparr>trace = [], inbound = [], transaction_id = PInt 0\<rparr>"]
        send_meter_values_optional_entries
          [of "\<lambda>r. ''2.5''" "''r''" "''t''" "NInt 5" "NInt 6" None None None
              "\<lparr>trace = [], inbound = [], transaction_id = PInt 0\<rparr>"]
  by simp

section \<open>Starting and stopping a transaction\<close>

text \<open>
  C4 (as amended): \<^verbatim>\<open>stop_transaction\<close> tests the stored transaction id for truth.
  When the id is falsy, as \<^verbatim>\<open>None\<close> is on a simulator that never started a
  transaction, and as the id 0 is after the server assigned it, the call returns without
  raising and leaves the whole state as it was, so nothing is sent. When the id is truthy
  it sends exactly one StopTransaction call, which carries the stored id and the given
  meterStop.
\<close>

theorem stop_transaction_idle_and_active:
  "(\<not> truthy (transaction_id sim) \<longrightarrow>
      stop_transaction request_id utcnow meter_stop sim = (Inr (), sim)) \<and>
   (transaction_id sim = PNone \<longrightarrow>
      stop_transaction request_id utcnow meter_stop sim = (Inr (), sim)) \<and>
   (truthy (transaction_id sim) \<longrightarrow>
      trace (snd (stop_transaction request_id utcnow meter_stop sim)) =
        trace sim @
        [Sent (PList [PInt 2, PStr request_id, PStr ''StopTransaction'',
                      PDict [(''transactionId'', transaction_id sim),
                             (''meterStop'', PInt meter_stop),
                             (''timestamp'', PStr (utcnow @ ''Z''))]])] \<and>
      transaction_id (snd (stop_transaction request_id utcnow meter_stop sim)) =
        transaction_id sim)"
  by (auto simp: stop_transaction_def Let_def split: prod.splits sum.splits
        dest: recv_send_trace recv_send_transaction_id)

theorem stop_transaction_idle_and_active_witness:
  "stop_transaction ''r'' ''t'' 1234 \<lparr>trace = [], inbound = [Closed], transaction_id = PNone\<rparr>
     = (Inr (), \<lparr>trace = [], inbound = [Closed], transaction_id = PNone\<rparr>) \<and>
   stop_transaction ''r'' ''t'' 1234 \<lparr>trace = [], inbound = [Closed], transaction_id = PInt 0\<rparr>
     = (Inr (), \<lparr>trace = [], inbound = [Closed], transaction_id = PInt 0\<rparr>) \<and>
   trace (snd (stop_transaction ''r'' ''t'' 1234
                 \<lparr>trace = [], inbound = [Message None], transaction_id = PInt 7\<rparr>)) =
     [Sent (PList [PInt 2, PStr ''r'', PStr ''StopTransaction'',
                   PDict [(''transactionId'', PInt 7), (''meterStop'', PInt 1234),
                          (''timestamp'', PStr ''tZ'')]])]"
  using stop_transaction_idle_and_active
          [of "\<lparr>trace = [], inbound = [Closed], transaction_id = PNone\<rparr>" "''r''" "''t''" 1234]
        stop_transaction_idle_and_active
          [of "\<lparr>trace = [], inbound = [Closed], transaction_id = PInt 0\<rparr>" "''r''" "''t''" 1234]
        stop_transaction_idle_and_active
          [of "\<lparr>trace = [], inbound = [Message None], transaction_id = PInt 7\<rparr>" "''r''" "''t''" 1234]
  by simp

text \<open>
  The claim as first stated fails: the server answers StartTransaction with the
  transaction id 0, the call stores it and returns true, and the StopTransaction that
  follows sends nothing.
\<close>

theorem stop_after_start_with_id_zero_counterexample:
  "start_transaction ''r'' ''t''
     \<lparr>trace = [],
      inbound = [Message (Some (PList [PInt 3, PStr ''r'', PDict [(''transactionId'', PInt 0)]]))],
      transaction_id = PNone\<rparr> =
   (Inr True,
    \<lparr>trace = [Sent (PList [PInt 2, PStr ''r'', PStr ''StartTransaction'',
                         PDict [(''connectorId'', PInt 1), (''idTag'', PStr ''TEST-TAG''),
                                (''meterStart'', PInt 1000), (''timestamp'', PStr ''tZ'')]])],
     inbound = [], transaction_id = PInt 0\<rparr>) \<and>
   stop_transaction ''s'' ''u'' 1234
    \<lparr>trace = [Sent (PList [PInt 2, PStr ''r'', PStr ''StartTransaction'',
                         PDict [(''connectorId'', PInt 1), (''idTag'', PStr ''TEST-TAG''),
                                (''meterStart'', PInt 1000), (''timestamp'', PStr ''tZ'')]])],
     inbound = [], transaction_id = PInt 0\<rparr> =
   (Inr (),
    \<lparr>trace = [Sent (PList [PInt 2, PStr ''r'', PStr ''StartTransaction'',
                         PDict [(''connectorId'', PInt 1), (''idTag'', PStr ''TEST-TAG''),
                                (''meterStart'', PInt 1000), (''timestamp'', PStr ''tZ'')]])],
     inbound = [], transaction_id = PInt 0\<rparr>)"
  by (simp add: start_transaction_def stop_transaction_def Let_def ws_recv_def ws_send_def
        json_loads_def)

text \<open>
  C6 (as amended): \<^verbatim>\<open>start_transaction\<close> sends one StartTransaction call. When the
  answer is not a success result (its message type is not 3) it returns false and the
  stored transaction id is unchanged. When the answer is a success result whose payload
  holds a transactionId, it stores that id and returns true. When the answer is a success
  result whose payload holds no transactionId, it does not return false: it raises
  \<^verbatim>\<open>KeyError\<close>, and the stored transaction id is unchanged.
\<close>

theorem start_transaction_outcome:
  assumes "inbound sim = Message (Some (PList (code # rid # payload # extra))) # rest"
  shows "trace (snd (start_transaction request_id utcnow sim)) =
           trace sim @
           [Sent (PList [PInt 2, PStr request_id, PStr ''StartTransaction'',
                         PDict [(''connectorId'', PInt 1), (''idTag'', PStr ''TEST-TAG''),
                                (''meterStart'', PInt 1000),
                                (''timestamp'', PStr (utcnow @ ''Z''))]])]
       \<and> (\<not> eq_int code 3 \<longrightarrow>
            fst (start_transaction request_id utcnow sim) = Inr False \<and>
            transaction_id (snd (start_transaction request_id utcnow sim)) = transaction_id sim)
       \<and> (\<forall>fields tid.
            eq_int code 3 \<and> payload = PDict fields \<and> map_of fields ''transactionId'' = Some tid \<longrightarrow>
            fst (start_transaction request_id utcnow sim) = Inr True \<and>
            transaction_id (snd (start_transaction request_id utcnow sim)) = tid)
       \<and> (\<forall>fields.
            eq_int code 3 \<and> payload = PDict fields \<and> map_of fields ''transactionId'' = None \<longrightarrow>
            fst (start_transaction request_id utcnow sim) = Inl (Raised KeyError) \<and>
            transaction_id (snd (start_transaction request_id utcnow sim)) = transaction_id sim)"
  using assms
  by (simp add: start_transaction_def Let_def recv_send_message json_loads_def split: sum.splits)

theorem start_transaction_outcome_witness:
  "fst (start_transaction ''r'' ''t''
     \<lparr>trace = [],
      inbound = [Message (Some (PList [PInt 3, PStr ''r'', PDict [(''transactionId'', PInt 42)]]))],
      transaction_id = PNone\<rparr>) = Inr True \<and>
   transaction_id (snd (start_transaction ''r'' ''t''
     \<lparr>trace = [],
      inbound = [Message (Some (PList [PInt 3, PStr ''r'', PDict [(''transactionId'', PInt 42)]]))],
      transaction_id = PNone\<rparr>)) = PInt 42 \<and>
   fst (start_transaction ''r'' ''t''
     \<lparr>trace = [],
      inbound = [Message (Some (PList [PInt 4, PStr ''r'', PStr ''InternalError'', PStr ''x'',
                                       PDict []]))],
      transaction_id = PNone\<rparr>) = Inr False \<and>
   fst (start_transaction ''r'' ''t''
     \<lparr>trace = [],
      inbound = [Message (Some (PList [PInt 3, PStr ''r'', PDict [(''idTagInfo'', PNone)]]))],
      transaction_id = PNone\<rparr>) = Inl (Raised KeyError)"
  using start_transaction_outcome
          [of "\<lparr>trace = [],
                inbound = [Message (Some (PList [PInt 3, PStr ''r'',
                                                 PDict [(''transactionId'', PInt 42)]]))],
                transaction_id = PNone\<rparr>"
              "PInt 3" "PStr ''r''" "PDict [(''transactionId'', PInt 42)]" "[]" "[]" "''r''" "''t''"]
        start_transaction_outcome
          [of "\<lparr>trace = [],
                inbound = [Message (Some (PList [PInt 4, PStr ''r'', PStr ''InternalError'',
                                                 PStr ''x'', PDict []]))],
                transaction_id = PNone\<rparr>"
              "PInt 4" "PStr ''r''" "PStr ''InternalError''" "[PStr ''x'', PDict []]" "[]"
              "''r''" "''t''"]
        start_transaction_outcome
          [of "\<lparr>trace = [],
                inbound = [Message (Some (PList [PInt 3, PStr ''r'', PDict [(''idTagInfo'', PNone)]]))],
                transaction_id = PNone\<rparr>"
              "PInt 3" "PStr ''r''" "PDict [(''idTagInfo'', PNone)]" "[]" "[]" "''r''" "''t''"]
  by simp

text \<open>
  The claim as first stated fails: the server answers with a success result that holds no
  transaction id, and the call raises instead of returning false.
\<close>

theorem start_transaction_missing_id_counterexample:
  "start_transaction ''r'' ''t''
     \<lparr>trace = [], inbound = [Message (Some (PList [PInt 3, PStr ''r'', PDict []]))],
      transaction_id = PNone\<rparr> =
   (Inl (Raised KeyError),
    \<lparr>trace = [Sent (PList [PInt 2, PStr ''r'', PStr ''StartTransaction'',
                         PDict [(''connectorId'', PInt 1), (''idTag'', PStr ''TEST-TAG''),
                                (''meterStart'', PInt 1000), (''timestamp'', PStr ''tZ'')]])],
     inbound = [], transaction_id = PNone\<rparr>)"
  by (simp add: start_transaction_def Let_def ws_recv_def ws_send_def json_loads_def)

section \<open>The configuration tests\<close>


lemma status_value:
  "(case map_of payload name of None \<Rightarrow> PNone | Some x \<Rightarrow> x) = PStr t \<longleftrightarrow>
     map_of payload name = Some (PStr t)"
  by (cases "map_of payload name") auto

lemma status_in_two:
  "status_in (case map_of payload name of None \<Rightarrow> PNone | Some x \<Rightarrow> x) [a, b] \<longleftrightarrow>
     map_of payload name = Some (PStr a) \<or> map_of payload name = Some (PStr b)"
  by (simp add: status_in_def eq_str_iff status_value)

lemma first_value_is_True:
  "first_value_is config_keys val = Inr True \<longleftrightarrow>
     (\<exists>entry others. config_keys = PList (PDict entry # others) \<and>
        map_of entry ''value'' = Some (PStr val))"
proof (cases config_keys)
  case (PList xs)
  show ?thesis
  proof (cases xs)
    case Nil
    with PList show ?thesis by (simp add: first_value_is_def)
  next
    case (Cons x others)
    with PList show ?thesis
      by (cases x) (auto simp: first_value_is_def eq_str_iff status_value)
  qed
qed (auto simp: first_value_is_def split: if_splits)

text \<open>What a test takes as the answer to a call, given the frame that comes next.\<close>

lemma exchange_fst_cases:
  "fst (exchange m w) =
     (case inbound w of Message (Some r) # rest \<Rightarrow> r | _ \<Rightarrow> PDict [])"
  by (auto simp: exchange_def recv_wait_for_def ws_recv_def ws_send_def json_loads_def
      split: list.splits frame.splits option.splits)

lemma exchange_test_results:
  "test_results (snd (exchange m v)) = test_results v"
  by (auto simp: exchange_def recv_wait_for_def ws_recv_def ws_send_def json_loads_def
      split: list.splits frame.splits option.splits)

lemma persisted_answer:
  "(is_call_result r = Inr True \<and>
    (\<exists>keys. payload_get r ''configurationKey'' (PList []) = Inr keys \<and>
            first_value_is keys val = Inr True)) \<longleftrightarrow>
   (\<exists>code rid payload extra entry others.
       r = PList (code # rid # PDict payload # extra) \<and> eq_int code 3 \<and>
       map_of payload ''configurationKey'' = Some (PList (PDict entry # others)) \<and>
       map_of entry ''value'' = Some (PStr val))"
  (is "?lhs \<longleftrightarrow> ?rhs")
proof
  assume ?lhs
  then obtain keys where a: "is_call_result r = Inr True"
    and b: "payload_get r ''configurationKey'' (PList []) = Inr keys"
    and c: "first_value_is keys val = Inr True" by blast
  from a b obtain code rid payload extra where
    r: "r = PList (code # rid # PDict payload # extra)" "eq_int code 3"
    and keys: "keys = (case map_of payload ''configurationKey'' of None \<Rightarrow> PList [] | Some x \<Rightarrow> x)"
    using call_result_status [of r "''configurationKey''" "PList []" keys] by blast
  from c obtain entry others where
    k: "keys = PList (PDict entry # others)" "map_of entry ''value'' = Some (PStr val)"
    unfolding first_value_is_True by blast
  from keys k have "map_of payload ''configurationKey'' = Some (PList (PDict entry # others))"
    by (cases "map_of payload ''configurationKey''") auto
  with r k show ?rhs by blast
next
  assume ?rhs
  then show ?lhs
    by (auto simp: first_value_is_True)
qed

lemma persistence_verdict_of_answers:
  assumes "send_change_configuration (uuid4 0) ''MeterValueSampleInterval'' (PStr ''45'') v = (r1, v1)"
      and "is_call_result r1 = Inr True"
      and "payload_get r1 ''status'' PNone = Inr s"
      and "status_in s [''Accepted'', ''RebootRequired'']"
      and "send_get_configuration (uuid4 1) (Some [''MeterValueSampleInterval'']) (sleep 1 v1) = (r2, v2)"
  shows "fst (test_persistence uuid4 v) = Inr True \<longleftrightarrow>
           is_call_result r2 = Inr True \<and>
           (\<exists>keys. payload_get r2 ''configurationKey'' (PList []) = Inr keys \<and>
                   first_value_is keys ''45'' = Inr True)"
    and "trace (snd (test_persistence uuid4 v)) = trace v2"
    and "fst (test_persistence uuid4 v) = Inr True \<longrightarrow>
           test_results (snd (test_persistence uuid4 v)) =
             test_results v2 @ [(''Configuration persistence'', True)]"
  using assms
  by (auto simp: test_persistence_def Let_def record_result_def split: sum.splits bool.splits)

lemma change_verdict_of_answers:
  assumes "send_get_configuration (uuid4 0) (Some [''HeartbeatInterval'']) v = (r0, v0)"
      and "original_value r0 = Inr orig"
      and "send_change_configuration (uuid4 1) ''HeartbeatInterval'' (PStr ''900'') v0 = (r1, v1)"
      and "is_call_result r1 = Inr True"
      and "payload_get r1 ''status'' PNone = Inr s"
      and "status_in s [''Accepted'', ''RebootRequired'']"
      and "send_get_configuration (uuid4 2) (Some [''HeartbeatInterval'']) (sleep (1 / 2) v1) = (r2, v2)"
  shows "fst (test_change_configuration uuid4 v) = Inr True \<longleftrightarrow>
           is_call_result r2 = Inr True \<and>
           (\<exists>keys. payload_get r2 ''configurationKey'' (PList []) = Inr keys \<and>
                   first_value_is keys ''900'' = Inr True)"
    and "fst (test_change_configuration uuid4 v) = Inr True \<longrightarrow>
           snd (test_change_configuration uuid4 v) =
             record_result ''Change configuration'' True
               (if truthy orig
                then snd (send_change_configuration (uuid4 3) ''HeartbeatInterval'' orig v2)
                else v2)"
    and "fst (test_change_configuration uuid4 v) \<noteq> Inr True \<longrightarrow>
           trace (snd (test_change_configuration uuid4 v)) = trace v2"
  using assms
  by (auto simp: test_change_configuration_def Let_def record_result_def
      split: sum.splits bool.splits)

lemma original_value_listed:
  "eq_int code 3 \<Longrightarrow>
   map_of payload ''configurationKey'' = Some (PList (PDict entry # others)) \<Longrightarrow>
   original_value (PList (code # rid # PDict payload # extra)) =
     Inr (case map_of entry ''value'' of None \<Rightarrow> PNone | Some x \<Rightarrow> x)"
  by (simp add: original_value_def)

lemma test_persistence_round_trip:
  assumes "inbound v = Message (Some (PList (c1 # i1 # PDict p1 # x1))) # later"
      and "eq_int c1 3"
      and "map_of p1 ''status'' = Some (PStr ''Accepted'') \<or>
           map_of p1 ''status'' = Some (PStr ''RebootRequired'')"
  shows "trace (snd (test_persistence uuid4 v)) =
           trace v @
           [Sent (PList [PInt 2, PStr (uuid4 0), PStr ''ChangeConfiguration'',
                         PDict [(''key'', PStr ''MeterValueSampleInterval''),
                                (''value'', PStr ''45'')]]),
            Slept 1,
            Sent (PList [PInt 2, PStr (uuid4 1), PStr ''GetConfiguration'',
                         PDict [(''key'', PList [PStr ''MeterValueSampleInterval''])]])]
       \<and> (fst (test_persistence uuid4 v) = Inr True \<longleftrightarrow>
            (\<exists>c2 i2 p2 x2 entry others rest.
                later = Message (Some (PList (c2 # i2 # PDict p2 # x2))) # rest \<and> eq_int c2 3 \<and>
                map_of p2 ''configurationKey'' = Some (PList (PDict entry # others)) \<and>
                map_of entry ''value'' = Some (PStr ''45'')))
       \<and> (fst (test_persistence uuid4 v) = Inr True \<longrightarrow>
            test_results (snd (test_persistence uuid4 v)) =
              test_results v @ [(''Configuration persistence'', True)])"
proof -
  let ?change = "PList [PInt 2, PStr (uuid4 0), PStr ''ChangeConfiguration'',
                         PDict [(''key'', PStr ''MeterValueSampleInterval''),
                                (''value'', PStr ''45'')]]"
  let ?get = "PList [PInt 2, PStr (uuid4 1), PStr ''GetConfiguration'',
                         PDict [(''key'', PList [PStr ''MeterValueSampleInterval''])]]"
  let ?rb = "PList (c1 # i1 # PDict p1 # x1)"
  let ?vb = "v\<lparr>trace := trace v @ [Sent ?change], inbound := later\<rparr>"
  have s1: "send_change_configuration (uuid4 0) ''MeterValueSampleInterval'' (PStr ''45'') v =
              (?rb, ?vb)"
    using assms(1) by (simp add: send_change_configuration_def exchange_message)
  have c1: "is_call_result ?rb = Inr True"
    using assms(2) by simp
  have st: "payload_get ?rb ''status'' PNone =
              Inr (case map_of p1 ''status'' of None \<Rightarrow> PNone | Some x \<Rightarrow> x)"
    by simp
  have ok: "status_in (case map_of p1 ''status'' of None \<Rightarrow> PNone | Some x \<Rightarrow> x)
              [''Accepted'', ''RebootRequired'']"
    using assms(3) by (simp add: status_in_two)
  obtain r2 v2 where
    s2: "send_get_configuration (uuid4 1) (Some [''MeterValueSampleInterval'']) (sleep 1 ?vb) =
           (r2, v2)"
    by (metis prod.collapse)
  have r2: "r2 = (case later of Message (Some r) # rest \<Rightarrow> r | _ \<Rightarrow> PDict [])"
    using s2 exchange_fst_cases [of ?get "sleep 1 ?vb"]
    by (simp add: send_get_configuration_def sleep_def)
  have t2: "trace v2 = trace v @ [Sent ?change, Slept 1, Sent ?get]"
    using s2 exchange_trace [of ?get "sleep 1 ?vb"]
    by (simp add: send_get_configuration_def sleep_def)
  have e2: "test_results v2 = test_results v"
    using s2 exchange_test_results [of ?get "sleep 1 ?vb"]
    by (simp add: send_get_configuration_def sleep_def)
  note verdict = persistence_verdict_of_answers [where ?uuid4.0 = uuid4, OF s1 c1 st ok s2]
  have shape: "(\<exists>code rid payload extra entry others.
       r2 = PList (code # rid # PDict payload # extra) \<and> eq_int code 3 \<and>
       map_of payload ''configurationKey'' = Some (PList (PDict entry # others)) \<and>
       map_of entry ''value'' = Some (PStr ''45'')) \<longleftrightarrow>
     (\<exists>c2 i2 p2 x2 entry others rest.
                later = Message (Some (PList (c2 # i2 # PDict p2 # x2))) # rest \<and> eq_int c2 3 \<and>
                map_of p2 ''configurationKey'' = Some (PList (PDict entry # others)) \<and>
                map_of entry ''value'' = Some (PStr ''45''))"
    unfolding r2 by (auto split: list.splits frame.splits option.splits)
  show ?thesis
    using verdict t2 e2 shape unfolding persisted_answer by simp
qed

lemma exchange_snd:
  "snd (exchange m w) = w\<lparr>trace := trace w @ [Sent m], inbound := tl (inbound w)\<rparr>"
  by (auto simp: exchange_def recv_wait_for_def ws_recv_def ws_send_def json_loads_def
      split: list.splits frame.splits option.splits)

lemma test_change_configuration_round_trip:
  assumes "inbound v =
             Message (Some (PList (c0 # i0 # PDict p0 # x0))) #
             Message (Some (PList (c1 # i1 # PDict p1 # x1))) # later"
      and "eq_int c0 3"
      and "map_of p0 ''configurationKey'' = Some (PList (PDict e0 # o0))"
      and "eq_int c1 3"
      and "map_of p1 ''status'' = Some (PStr ''Accepted'') \<or>
           map_of p1 ''status'' = Some (PStr ''RebootRequired'')"
  shows "(fst (test_change_configuration uuid4 v) = Inr True \<longleftrightarrow>
            (\<exists>c2 i2 p2 x2 entry others rest.
                later = Message (Some (PList (c2 # i2 # PDict p2 # x2))) # rest \<and> eq_int c2 3 \<and>
                map_of p2 ''configurationKey'' = Some (PList (PDict entry # others)) \<and>
                map_of entry ''value'' = Some (PStr ''900'')))
       \<and> trace (snd (test_change_configuration uuid4 v)) =
           trace v @
           [Sent (PList [PInt 2, PStr (uuid4 0), PStr ''GetConfiguration'',
                         PDict [(''key'', PList [PStr ''HeartbeatInterval''])]]),
            Sent (PList [PInt 2, PStr (uuid4 1), PStr ''ChangeConfiguration'',
                         PDict [(''key'', PStr ''HeartbeatInterval''),
                                (''value'', PStr ''900'')]]),
            Slept (1 / 2),
            Sent (PList [PInt 2, PStr (uuid4 2), PStr ''GetConfiguration'',
                         PDict [(''key'', PList [PStr ''HeartbeatInterval''])]])]
           @ (if fst (test_change_configuration uuid4 v) = Inr True \<and>
                 truthy (case map_of e0 ''value'' of None \<Rightarrow> PNone | Some x \<Rightarrow> x)
              then [Sent (PList [PInt 2, PStr (uuid4 3), PStr ''ChangeConfiguration'',
                                 PDict [(''key'', PStr ''HeartbeatInterval''),
                                        (''value'', case map_of e0 ''value'' of
                                                      None \<Rightarrow> PNone | Some x \<Rightarrow> x)]])]
              else [])"
proof -
  let ?ask = "PList [PInt 2, PStr (uuid4 0), PStr ''GetConfiguration'',
                         PDict [(''key'', PList [PStr ''HeartbeatInterval''])]]"
  let ?change = "PList [PInt 2, PStr (uuid4 1), PStr ''ChangeConfiguration'',
                         PDict [(''key'', PStr ''HeartbeatInterval''),
                                (''value'', PStr ''900'')]]"
  let ?ask_again = "PList [PInt 2, PStr (uuid4 2), PStr ''GetConfiguration'',
                         PDict [(''key'', PList [PStr ''HeartbeatInterval''])]]"
  let ?orig = "case map_of e0 ''value'' of None \<Rightarrow> PNone | Some x \<Rightarrow> x"
  let ?ra = "PList (c0 # i0 # PDict p0 # x0)"
  let ?rb = "PList (c1 # i1 # PDict p1 # x1)"
  let ?va = "v\<lparr>trace := trace v @ [Sent ?ask],
               inbound := Message (Some ?rb) # later\<rparr>"
  let ?vb = "?va\<lparr>trace := trace ?va @ [Sent ?change], inbound := later\<rparr>"
  have s0: "send_get_configuration (uuid4 0) (Some [''HeartbeatInterval'']) v = (?ra, ?va)"
    using assms(1) by (simp add: send_get_configuration_def exchange_message)
  have o: "original_value ?ra = Inr ?orig"
    using assms(2,3) by (rule original_value_listed)
  have s1: "send_change_configuration (uuid4 1) ''HeartbeatInterval'' (PStr ''900'') ?va =
              (?rb, ?vb)"
    by (simp add: send_change_configuration_def exchange_message)
  have c1: "is_call_result ?rb = Inr True"
    using assms(4) by simp
  have st: "payload_get ?rb ''status'' PNone =
              Inr (case map_of p1 ''status'' of None \<Rightarrow> PNone | Some x \<Rightarrow> x)"
    by simp
  have ok: "status_in (case map_of p1 ''status'' of None \<Rightarrow> PNone | Some x \<Rightarrow> x)
              [''Accepted'', ''RebootRequired'']"
    using assms(5) by (simp add: status_in_two)
  obtain r2 v2 where
    s2: "send_get_configuration (uuid4 2) (Some [''HeartbeatInterval'']) (sleep (1 / 2) ?vb) =
           (r2, v2)"
    by (metis prod.collapse)
  have r2: "r2 = (case later of Message (Some r) # rest \<Rightarrow> r | _ \<Rightarrow> PDict [])"
    using s2 exchange_fst_cases [of ?ask_again "sleep (1 / 2) ?vb"]
    by (simp add: send_get_configuration_def sleep_def)
  have t2: "trace v2 = trace v @ [Sent ?ask, Sent ?change, Slept (1 / 2), Sent ?ask_again]"
    using s2 exchange_trace [of ?ask_again "sleep (1 / 2) ?vb"]
    by (simp add: send_get_configuration_def sleep_def)
  note verdict = change_verdict_of_answers [where ?uuid4.0 = uuid4, OF s0 o s1 c1 st ok s2]
  have shape: "(\<exists>code rid payload extra entry others.
       r2 = PList (code # rid # PDict payload # extra) \<and> eq_int code 3 \<and>
       map_of payload ''configurationKey'' = Some (PList (PDict entry # others)) \<and>
       map_of entry ''value'' = Some (PStr ''900'')) \<longleftrightarrow>
     (\<exists>c2 i2 p2 x2 entry others rest.
                later = Message (Some (PList (c2 # i2 # PDict p2 # x2))) # rest \<and> eq_int c2 3 \<and>
                map_of p2 ''configurationKey'' = Some (PList (PDict entry # others)) \<and>
                map_of entry ''value'' = Some (PStr ''900''))"
    unfolding r2 by (auto split: list.splits frame.splits option.splits)
  have pass: "fst (test_change_configuration uuid4 v) = Inr True \<longleftrightarrow>
            (\<exists>c2 i2 p2 x2 entry others rest.
                later = Message (Some (PList (c2 # i2 # PDict p2 # x2))) # rest \<and> eq_int c2 3 \<and>
                map_of p2 ''configurationKey'' = Some (PList (PDict entry # others)) \<and>
                map_of entry ''value'' = Some (PStr ''900''))"
    using verdict(1) shape unfolding persisted_answer by simp
  have tr: "trace (snd (test_change_configuration uuid4 v)) =
              trace v2 @
              (if fst (test_change_configuration uuid4 v) = Inr True \<and> truthy ?orig
               then [Sent (PList [PInt 2, PStr (uuid4 3), PStr ''ChangeConfiguration'',
                                 PDict [(''key'', PStr ''HeartbeatInterval''),
                                        (''value'', ?orig)]])]
               else [])"
  proof (cases "fst (test_change_configuration uuid4 v) = Inr True")
    case True
    with verdict(2) show ?thesis
      by (simp add: record_result_def send_change_configuration_def exchange_snd)
  next
    case False
    with verdict(3) show ?thesis by simp
  qed
  show ?thesis
    using pass tr t2 by simp
qed


lemma readonly_verdict_of_response:
  assumes "send_change_configuration (uuid4 0) ''ChargeProfileMaxStackLevel'' (PStr ''20'') v = (r, v1)"
  shows "fst (test_readonly_rejection uuid4 v) = Inr True \<longleftrightarrow>
           is_call_result r = Inr True \<and> payload_get r ''status'' PNone = Inr (PStr ''Rejected'')"
  using assms
  by (auto simp: test_readonly_rejection_def eq_str_iff split: sum.splits bool.splits)

lemma test_readonly_rejection_answer:
  "(fst (test_readonly_rejection uuid4 v) = Inr True \<longleftrightarrow>
      (\<exists>code rid payload extra rest.
          inbound v = Message (Some (PList (code # rid # PDict payload # extra))) # rest \<and>
          eq_int code 3 \<and> map_of payload ''status'' = Some (PStr ''Rejected'')))
   \<and> (\<forall>code rid payload extra rest.
          inbound v = Message (Some (PList (code # rid # PDict payload # extra))) # rest \<and>
          eq_int code 3 \<longrightarrow>
          test_readonly_rejection uuid4 v =
            (Inr (map_of payload ''status'' = Some (PStr ''Rejected'')),
             v\<lparr>trace := trace v @
                  [Sent (PList [PInt 2, PStr (uuid4 0), PStr ''ChangeConfiguration'',
                                PDict [(''key'', PStr ''ChargeProfileMaxStackLevel''),
                                       (''value'', PStr ''20'')]])],
               inbound := rest,
               test_results := test_results v @
                  [(''Read-only rejection'',
                    map_of payload ''status'' = Some (PStr ''Rejected''))]\<rparr>))"
proof (intro conjI allI impI)
  show "fst (test_readonly_rejection uuid4 v) = Inr True \<longleftrightarrow>
      (\<exists>code rid payload extra rest.
          inbound v = Message (Some (PList (code # rid # PDict payload # extra))) # rest \<and>
          eq_int code 3 \<and> map_of payload ''status'' = Some (PStr ''Rejected''))"
  proof (cases "\<exists>r rest. inbound v = Message (Some r) # rest")
    case False
    then have "fst (send_change_configuration (uuid4 0) ''ChargeProfileMaxStackLevel''
                      (PStr ''20'') v) = PDict []"
      unfolding send_change_configuration_def by (rule exchange_other)
    then obtain v1 where
      "send_change_configuration (uuid4 0) ''ChargeProfileMaxStackLevel'' (PStr ''20'') v =
         (PDict [], v1)"
      by (metis prod.collapse)
    from readonly_verdict_of_response [where ?uuid4.0 = uuid4, OF this] False show ?thesis
      by auto
  next
    case True
    then obtain r rest where inb: "inbound v = Message (Some r) # rest" by blast
    then have
      "send_change_configuration (uuid4 0) ''ChargeProfileMaxStackLevel'' (PStr ''20'') v =
         (r, v\<lparr>trace := trace v @
                  [Sent (PList [PInt 2, PStr (uuid4 0), PStr ''ChangeConfiguration'',
                                PDict [(''key'', PStr ''ChargeProfileMaxStackLevel''),
                                       (''value'', PStr ''20'')]])],
               inbound := rest\<rparr>)"
      by (simp add: send_change_configuration_def exchange_message)
    from readonly_verdict_of_response [where ?uuid4.0 = uuid4, OF this] inb show ?thesis
      unfolding call_result_status_is by auto
  qed
next
  fix code rid payload extra rest
  assume "inbound v = Message (Some (PList (code # rid # PDict payload # extra))) # rest \<and>
          eq_int code 3"
  then show "test_readonly_rejection uuid4 v =
            (Inr (map_of payload ''status'' = Some (PStr ''Rejected'')),
             v\<lparr>trace := trace v @
                  [Sent (PList [PInt 2, PStr (uuid4 0), PStr ''ChangeConfiguration'',
                                PDict [(''key'', PStr ''ChargeProfileMaxStackLevel''),
                                       (''value'', PStr ''20'')]])],
               inbound := rest,
               test_results := test_results v @
                  [(''Read-only rejection'',
                    map_of payload ''status'' = Some (PStr ''Rejected''))]\<rparr>)"
    by (simp add: test_readonly_rejection_def send_change_configuration_def exchange_message
          eq_str_iff status_value record_result_def)
qed

lemma test_readonly_rejection_trace:
  "trace (snd (test_readonly_rejection uuid4 v)) =
     trace v @
     [Sent (PList [PInt 2, PStr (uuid4 0), PStr ''ChangeConfiguration'',
                   PDict [(''key'', PStr ''ChargeProfileMaxStackLevel''),
                          (''value'', PStr ''20'')]])]"
  by (simp add: test_readonly_rejection_def send_change_configuration_def case_prod_beta
        exchange_snd record_result_def split: sum.splits bool.splits)

text \<open>
  C7 (as amended): the read-only check (\<^verbatim>\<open>test_readonly_rejection\<close>) makes one
  ChangeConfiguration call, for the key ChargeProfileMaxStackLevel with the value "20",
  whatever the server answers; no other read-only key and no other value is tried. The
  check passes exactly when the answer to that call is a success result whose status is
  "Rejected". On a success result with any other status (Accepted, RebootRequired,
  NotSupported, none at all) it returns false and records the failure under
  "Read-only rejection".
\<close>

theorem test_readonly_rejection_verdict:
  "trace (snd (test_readonly_rejection uuid4 v)) =
     trace v @
     [Sent (PList [PInt 2, PStr (uuid4 0), PStr ''ChangeConfiguration'',
                   PDict [(''key'', PStr ''ChargeProfileMaxStackLevel''),
                          (''value'', PStr ''20'')]])]
   \<and> (fst (test_readonly_rejection uuid4 v) = Inr True \<longleftrightarrow>
      (\<exists>code rid payload extra rest.
          inbound v = Message (Some (PList (code # rid # PDict payload # extra))) # rest \<and>
          eq_int code 3 \<and> map_of payload ''status'' = Some (PStr ''Rejected'')))
   \<and> (\<forall>code rid payload extra rest.
          inbound v = Message (Some (PList (code # rid # PDict payload # extra))) # rest \<and>
          eq_int code 3 \<longrightarrow>
          test_readonly_rejection uuid4 v =
            (Inr (map_of payload ''status'' = Some (PStr ''Rejected'')),
             v\<lparr>trace := trace v @
                  [Sent (PList [PInt 2, PStr (uuid4 0), PStr ''ChangeConfiguration'',
                                PDict [(''key'', PStr ''ChargeProfileMaxStackLevel''),
                                       (''value'', PStr ''20'')]])],
               inbound := rest,
               test_results := test_results v @
                  [(''Read-only rejection'',
                    map_of payload ''status'' = Some (PStr ''Rejected''))]\<rparr>))"
  by (rule conjI [OF test_readonly_rejection_trace test_readonly_rejection_answer])

theorem test_readonly_rejection_verdict_witness:
  "test_readonly_rejection (\<lambda>k. ''id'')
     \<lparr>trace = [],
      inbound = [Message (Some (PList [PInt 3, PStr ''id'', PDict [(''status'', PStr ''Accepted'')]]))],
      test_results = []\<rparr> =
   (Inr False,
    \<lparr>trace = [Sent (PList [PInt 2, PStr ''id'', PStr ''ChangeConfiguration'',
                          PDict [(''key'', PStr ''ChargeProfileMaxStackLevel''),
                                 (''value'', PStr ''20'')]])],
     inbound = [],
     test_results = [(''Read-only rejection'', False)]\<rparr>)"
  using test_readonly_rejection_verdict
          [of "\<lambda>k. ''id''"
              "\<lparr>trace = [],
                inbound = [Message (Some (PList [PInt 3, PStr ''id'',
                                                 PDict [(''status'', PStr ''Accepted'')]]))],
                test_results = []\<rparr>"]
  by simp


text \<open>
  The claim as first stated fails: SupportedFeatureProfiles is a read-only key of the
  validator, and the check passes without a ChangeConfiguration call for it.
\<close>

theorem readonly_check_one_key_counterexample:
  "''SupportedFeatureProfiles'' \<in> set readonly_keys \<and>
   test_readonly_rejection (\<lambda>k. ''id'')
     \<lparr>trace = [],
      inbound = [Message (Some (PList [PInt 3, PStr ''id'', PDict [(''status'', PStr ''Rejected'')]]))],
      test_results = []\<rparr> =
   (Inr True,
    \<lparr>trace = [Sent (PList [PInt 2, PStr ''id'', PStr ''ChangeConfiguration'',
                          PDict [(''key'', PStr ''ChargeProfileMaxStackLevel''),
                                 (''value'', PStr ''20'')]])],
     inbound = [],
     test_results = [(''Read-only rejection'', True)]\<rparr>)"
  by (simp add: readonly_keys_def test_readonly_rejection_def send_change_configuration_def
        exchange_def recv_wait_for_def ws_recv_def ws_send_def json_loads_def
        is_call_result_def payload_get_def record_result_def)

lemma invalid_values_step:
  assumes "inbound v = Message (Some (PList (code # rid # PDict payload # extra))) # rest"
      and "eq_int code 3"
  shows "invalid_values_loop uuid4 k ((key, val, description) # cases) all_passed v =
           invalid_values_loop uuid4 (Suc k) cases
             (all_passed \<and> (map_of payload ''status'' = Some (PStr ''Rejected'') \<or>
                            map_of payload ''status'' = Some (PStr ''NotSupported'')))
             (v\<lparr>trace := trace v @
                    [Sent (PList [PInt 2, PStr (uuid4 k), PStr ''ChangeConfiguration'',
                                  PDict [(''key'', PStr key), (''value'', PStr val)]])],
                 inbound := rest\<rparr>)"
  using assms
  by (simp add: send_change_configuration_def exchange_message status_in_two)

lemma test_invalid_values_answered:
  assumes "inbound v =
             Message (Some (PList (c1 # i1 # PDict p1 # x1))) #
             Message (Some (PList (c2 # i2 # PDict p2 # x2))) #
             Message (Some (PList (c3 # i3 # PDict p3 # x3))) #
             Message (Some (PList (c4 # i4 # PDict p4 # x4))) # rest"
      and "eq_int c1 3" and "eq_int c2 3" and "eq_int c3 3" and "eq_int c4 3"
  shows "test_invalid_values uuid4 v =
           (Inr (\<forall>p \<in> {p1, p2, p3, p4}.
                   map_of p ''status'' = Some (PStr ''Rejected'') \<or>
                   map_of p ''status'' = Some (PStr ''NotSupported'')),
            v\<lparr>trace := trace v @
                 [Sent (PList [PInt 2, PStr (uuid4 0), PStr ''ChangeConfiguration'',
                               PDict [(''key'', PStr ''HeartbeatInterval''),
                                      (''value'', PStr ''not-a-number'')]]),
                  Sent (PList [PInt 2, PStr (uuid4 1), PStr ''ChangeConfiguration'',
                               PDict [(''key'', PStr ''LightIntensity''),
                                      (''value'', PStr ''150'')]]),
                  Sent (PList [PInt 2, PStr (uuid4 2), PStr ''ChangeConfiguration'',
                               PDict [(''key'', PStr ''LocalAuthorizeOffline''),
                                      (''value'', PStr ''yes'')]]),
                  Sent (PList [PInt 2, PStr (uuid4 3), PStr ''ChangeConfiguration'',
                               PDict [(''key'', PStr ''UnknownKey''),
                                      (''value'', PStr ''value'')]])],
              inbound := rest,
              test_results := test_results v @
                 [(''Invalid value rejection'',
                   \<forall>p \<in> {p1, p2, p3, p4}.
                      map_of p ''status'' = Some (PStr ''Rejected'') \<or>
                      map_of p ''status'' = Some (PStr ''NotSupported''))]\<rparr>)"
proof -
  show ?thesis
    unfolding test_invalid_values_def test_cases_def
    using assms
    by (simp add: invalid_values_step record_result_def eval_nat_numeral del: invalid_values_loop.simps(2))
qed

lemma invalid_values_loop_passes:
  "fst (invalid_values_loop uuid4 k cases all_passed v) = Inr True \<longleftrightarrow>
     all_passed \<and>
     (\<exists>answers rest.
        inbound v = answers @ rest \<and> length answers = length cases \<and>
        (\<forall>f \<in> set answers.
           \<exists>code rid payload extra.
             f = Message (Some (PList (code # rid # PDict payload # extra))) \<and> eq_int code 3 \<and>
             (map_of payload ''status'' = Some (PStr ''Rejected'') \<or>
              map_of payload ''status'' = Some (PStr ''NotSupported''))))"
  (is "?lhs cases k all_passed v \<longleftrightarrow> all_passed \<and> ?rhs cases v")
proof (induction cases arbitrary: k all_passed v)
  case Nil
  then show ?case by simp
next
  case (Cons c cases)
  obtain key val description where c: "c = (key, val, description)"
    by (cases c) auto
  let ?m = "PList [PInt 2, PStr (uuid4 k), PStr ''ChangeConfiguration'',
                   PDict [(''key'', PStr key), (''value'', PStr val)]]"
  let ?r = "fst (exchange ?m v)"
  let ?v1 = "snd (exchange ?m v)"
  let ?good = "\<lambda>f. \<exists>code rid payload extra.
             f = Message (Some (PList (code # rid # PDict payload # extra))) \<and> eq_int code 3 \<and>
             (map_of payload ''status'' = Some (PStr ''Rejected'') \<or>
              map_of payload ''status'' = Some (PStr ''NotSupported''))"
  have inb: "inbound ?v1 = tl (inbound v)"
    by (simp add: exchange_snd)
  have r: "?r = (case inbound v of Message (Some r) # rest \<Rightarrow> r | _ \<Rightarrow> PDict [])"
    by (rule exchange_fst_cases)
  have split_rhs: "?rhs (c # cases) v \<longleftrightarrow>
                     (\<exists>f later. inbound v = f # later \<and> ?good f \<and> ?rhs cases ?v1)"
  proof
    assume "?rhs (c # cases) v"
    then obtain answers rest where
      a: "inbound v = answers @ rest" "length answers = length (c # cases)"
         "\<forall>f \<in> set answers. ?good f" by blast
    then obtain f fs where fs: "answers = f # fs"
      by (cases answers) auto
    with a have "inbound v = f # (fs @ rest)" "?good f"
      "inbound ?v1 = fs @ rest" "length fs = length cases" "\<forall>f \<in> set fs. ?good f"
      by (simp_all add: inb)
    then show "\<exists>f later. inbound v = f # later \<and> ?good f \<and> ?rhs cases ?v1"
      by blast
  next
    assume "\<exists>f later. inbound v = f # later \<and> ?good f \<and> ?rhs cases ?v1"
    then obtain f later answers rest where
      a: "inbound v = f # later" "?good f" "inbound ?v1 = answers @ rest"
         "length answers = length cases" "\<forall>f \<in> set answers. ?good f" by blast
    then have "inbound v = (f # answers) @ rest" "length (f # answers) = length (c # cases)"
      "\<forall>g \<in> set (f # answers). ?good g"
      by (simp_all add: inb)
    then show "?rhs (c # cases) v" by blast
  qed
  have good_head: "(\<exists>f later. inbound v = f # later \<and> ?good f) \<longleftrightarrow>
          is_call_result ?r = Inr True \<and>
          (payload_get ?r ''status'' PNone = Inr (PStr ''Rejected'') \<or>
           payload_get ?r ''status'' PNone = Inr (PStr ''NotSupported''))"
    (is "?head \<longleftrightarrow> ?answer")
  proof
    assume ?head
    then show ?answer
      unfolding r by (auto simp: status_value)
  next
    assume a: ?answer
    then have "\<exists>code rid payload extra.
                ?r = PList (code # rid # PDict payload # extra) \<and> eq_int code 3 \<and>
                (map_of payload ''status'' = Some (PStr ''Rejected'') \<or>
                 map_of payload ''status'' = Some (PStr ''NotSupported''))"
      using call_result_status_is [of ?r "''status''" "''Rejected''"]
            call_result_status_is [of ?r "''status''" "''NotSupported''"]
      by blast
    then show ?head
      unfolding r by (auto split: list.splits frame.splits option.splits)
  qed
  have step: "invalid_values_loop uuid4 k (c # cases) all_passed v =
     (case is_call_result ?r of
           Inl e \<Rightarrow> (Inl e, ?v1)
         | Inr False \<Rightarrow> invalid_values_loop uuid4 (Suc k) cases False ?v1
         | Inr True \<Rightarrow>
             (case payload_get ?r ''status'' PNone of
                Inl e \<Rightarrow> (Inl e, ?v1)
              | Inr status \<Rightarrow>
                  if status_in status [''Rejected'', ''NotSupported'']
                  then invalid_values_loop uuid4 (Suc k) cases all_passed ?v1
                  else invalid_values_loop uuid4 (Suc k) cases False ?v1))"
    by (simp add: c send_change_configuration_def case_prod_beta)
  have status: "status_in s [''Rejected'', ''NotSupported''] \<longleftrightarrow>
                  s = PStr ''Rejected'' \<or> s = PStr ''NotSupported''" for s
    by (simp add: status_in_def eq_str_iff)
  have head_rhs: "?rhs (c # cases) v \<longleftrightarrow>
                    is_call_result ?r = Inr True \<and>
                    (payload_get ?r ''status'' PNone = Inr (PStr ''Rejected'') \<or>
                     payload_get ?r ''status'' PNone = Inr (PStr ''NotSupported'')) \<and>
                    ?rhs cases ?v1"
    unfolding split_rhs using good_head by blast
  show ?case
  proof (cases "is_call_result ?r")
    case (Inl e)
    then show ?thesis
      unfolding head_rhs step by simp
  next
    case (Inr b)
    show ?thesis
    proof (cases b)
      case False
      with Inr Cons.IH [of "Suc k" False ?v1] show ?thesis
        unfolding head_rhs step by simp
    next
      case True
      show ?thesis
      proof (cases "payload_get ?r ''status'' PNone")
        case (Inl e)
        with Inr True show ?thesis
          unfolding head_rhs step by simp
      next
        case st: (Inr s)
        show ?thesis
        proof (cases "s = PStr ''Rejected'' \<or> s = PStr ''NotSupported''")
          case ok: True
          then have "status_in s [''Rejected'', ''NotSupported'']"
            by (simp add: status)
          with Inr True st ok Cons.IH [of "Suc k" all_passed ?v1] show ?thesis
            unfolding head_rhs step by simp
        next
          case bad: False
          then have "\<not> status_in s [''Rejected'', ''NotSupported'']"
            by (simp add: status)
          with Inr True st bad Cons.IH [of "Suc k" False ?v1] show ?thesis
            unfolding head_rhs step by simp
        qed
      qed
    qed
  qed
qed

lemma test_invalid_values_passes:
  "fst (test_invalid_values uuid4 v) = Inr True \<longleftrightarrow>
     (\<exists>answers rest.
        inbound v = answers @ rest \<and> length answers = 4 \<and>
        (\<forall>f \<in> set answers.
           \<exists>code rid payload extra.
             f = Message (Some (PList (code # rid # PDict payload # extra))) \<and> eq_int code 3 \<and>
             (map_of payload ''status'' = Some (PStr ''Rejected'') \<or>
              map_of payload ''status'' = Some (PStr ''NotSupported''))))"
proof -
  have len: "length test_cases = 4"
    by (simp add: test_cases_def)
  have "fst (test_invalid_values uuid4 v) = Inr True \<longleftrightarrow>
          fst (invalid_values_loop uuid4 0 test_cases True v) = Inr True"
    by (auto simp: test_invalid_values_def split: prod.splits sum.splits)
  also have "\<dots> \<longleftrightarrow> (\<exists>answers rest.
        inbound v = answers @ rest \<and> length answers = length test_cases \<and>
        (\<forall>f \<in> set answers.
           \<exists>code rid payload extra.
             f = Message (Some (PList (code # rid # PDict payload # extra))) \<and> eq_int code 3 \<and>
             (map_of payload ''status'' = Some (PStr ''Rejected'') \<or>
              map_of payload ''status'' = Some (PStr ''NotSupported''))))"
    unfolding invalid_values_loop_passes by simp
  finally show ?thesis
    unfolding len .
qed

text \<open>
  C8: the invalid-value check (\<^verbatim>\<open>test_invalid_values\<close>) makes the four
  out-of-domain ChangeConfiguration calls (HeartbeatInterval = "not-a-number",
  LightIntensity = "150", LocalAuthorizeOffline = "yes", UnknownKey = "value") and passes
  exactly when each of the four is answered with a success result whose status is
  "Rejected" or "NotSupported"; so one status "Accepted" makes it fail. The verdict is
  recorded under "Invalid value rejection".
\<close>

theorem test_invalid_values_verdict:
  "(fst (test_invalid_values uuid4 v) = Inr True \<longleftrightarrow>
      (\<exists>answers rest.
         inbound v = answers @ rest \<and> length answers = 4 \<and>
         (\<forall>f \<in> set answers.
            \<exists>code rid payload extra.
              f = Message (Some (PList (code # rid # PDict payload # extra))) \<and> eq_int code 3 \<and>
              (map_of payload ''status'' = Some (PStr ''Rejected'') \<or>
               map_of payload ''status'' = Some (PStr ''NotSupported'')))))
   \<and> (\<forall>c1 i1 p1 x1 c2 i2 p2 x2 c3 i3 p3 x3 c4 i4 p4 x4 rest.
         inbound v =
           Message (Some (PList (c1 # i1 # PDict p1 # x1))) #
           Message (Some (PList (c2 # i2 # PDict p2 # x2))) #
           Message (Some (PList (c3 # i3 # PDict p3 # x3))) #
           Message (Some (PList (c4 # i4 # PDict p4 # x4))) # rest \<and>
         eq_int c1 3 \<and> eq_int c2 3 \<and> eq_int c3 3 \<and> eq_int c4 3 \<longrightarrow>
         test_invalid_values uuid4 v =
           (Inr (\<forall>p \<in> {p1, p2, p3, p4}.
                   map_of p ''status'' = Some (PStr ''Rejected'') \<or>
                   map_of p ''status'' = Some (PStr ''NotSupported'')),
            v\<lparr>trace := trace v @
                 [Sent (PList [PInt 2, PStr (uuid4 0), PStr ''ChangeConfiguration'',
                               PDict [(''key'', PStr ''HeartbeatInterval''),
                                      (''value'', PStr ''not-a-number'')]]),
                  Sent (PList [PInt 2, PStr (uuid4 1), PStr ''ChangeConfiguration'',
                               PDict [(''key'', PStr ''LightIntensity''),
                                      (''value'', PStr ''150'')]]),
                  Sent (PList [PInt 2, PStr (uuid4 2), PStr ''ChangeConfiguration'',
                               PDict [(''key'', PStr ''LocalAuthorizeOffline''),
                                      (''value'', PStr ''yes'')]]),
                  Sent (PList [PInt 2, PStr (uuid4 3), PStr ''ChangeConfiguration'',
                               PDict [(''key'', PStr ''UnknownKey''),
                                      (''value'', PStr ''value'')]])],
              inbound := rest,
              test_results := test_results v @
                 [(''Invalid value rejection'',
                   \<forall>p \<in> {p1, p2, p3, p4}.
                      map_of p ''status'' = Some (PStr ''Rejected'') \<or>
                      map_of p ''status'' = Some (PStr ''NotSupported''))]\<rparr>))"
proof (intro conjI allI impI)
  show "fst (test_invalid_values uuid4 v) = Inr True \<longleftrightarrow>
      (\<exists>answers rest.
         inbound v = answers @ rest \<and> length answers = 4 \<and>
         (\<forall>f \<in> set answers.
            \<exists>code rid payload extra.
              f = Message (Some (PList (code # rid # PDict payload # extra))) \<and> eq_int code 3 \<and>
              (map_of payload ''status'' = Some (PStr ''Rejected'') \<or>
               map_of payload ''status'' = Some (PStr ''NotSupported''))))"
    by (rule test_invalid_values_passes)
next
  fix c1 i1 p1 x1 c2 i2 p2 x2 c3 i3 p3 x3 c4 i4 p4 x4 rest
  assume a: "inbound v =
           Message (Some (PList (c1 # i1 # PDict p1 # x1))) #
           Message (Some (PList (c2 # i2 # PDict p2 # x2))) #
           Message (Some (PList (c3 # i3 # PDict p3 # x3))) #
           Message (Some (PList (c4 # i4 # PDict p4 # x4))) # rest \<and>
         eq_int c1 3 \<and> eq_int c2 3 \<and> eq_int c3 3 \<and> eq_int c4 3"
  then have "inbound v =
           Message (Some (PList (c1 # i1 # PDict p1 # x1))) #
           Message (Some (PList (c2 # i2 # PDict p2 # x2))) #
           Message (Some (PList (c3 # i3 # PDict p3 # x3))) #
           Message (Some (PList (c4 # i4 # PDict p4 # x4))) # rest"
    and "eq_int c1 3" and "eq_int c2 3" and "eq_int c3 3" and "eq_int c4 3"
    by simp_all
  then show "test_invalid_values uuid4 v =
           (Inr (\<forall>p \<in> {p1, p2, p3, p4}.
                   map_of p ''status'' = Some (PStr ''Rejected'') \<or>
                   map_of p ''status'' = Some (PStr ''NotSupported'')),
            v\<lparr>trace := trace v @
                 [Sent (PList [PInt 2, PStr (uuid4 0), PStr ''ChangeConfiguration'',
                               PDict [(''key'', PStr ''HeartbeatInterval''),
                                      (''value'', PStr ''not-a-number'')]]),
                  Sent (PList [PInt 2, PStr (uuid4 1), PStr ''ChangeConfiguration'',
                               PDict [(''key'', PStr ''LightIntensity''),
                                      (''value'', PStr ''150'')]]),
                  Sent (PList [PInt 2, PStr (uuid4 2), PStr ''ChangeConfiguration'',
                               PDict [(''key'', PStr ''LocalAuthorizeOffline''),
                                      (''value'', PStr ''yes'')]]),
                  Sent (PList [PInt 2, PStr (uuid4 3), PStr ''ChangeConfiguration'',
                               PDict [(''key'', PStr ''UnknownKey''),
                                      (''value'', PStr ''value'')]])],
              inbound := rest,
              test_results := test_results v @
                 [(''Invalid value rejection'',
                   \<forall>p \<in> {p1, p2, p3, p4}.
                      map_of p ''status'' = Some (PStr ''Rejected'') \<or>
                      map_of p ''status'' = Some (PStr ''NotSupported''))]\<rparr>)"
    by (rule test_invalid_values_answered)
qed

theorem test_invalid_values_verdict_witness:
  "test_invalid_values (\<lambda>k. ''id'')
     \<lparr>trace = [],
      inbound =
        [Message (Some (PList [PInt 3, PStr ''id'', PDict [(''status'', PStr ''Rejected'')]])),
         Message (Some (PList [PInt 3, PStr ''id'', PDict [(''status'', PStr ''NotSupported'')]])),
         Message (Some (PList [PInt 3, PStr ''id'', PDict [(''status'', PStr ''Rejected'')]])),
         Message (Some (PList [PInt 3, PStr ''id'', PDict [(''status'', PStr ''Accepted'')]]))],
      test_results = []\<rparr> =
   (Inr False,
    \<lparr>trace =
       [Sent (PList [PInt 2, PStr ''id'', PStr ''ChangeConfiguration'',
                     PDict [(''key'', PStr ''HeartbeatInterval''),
                            (''value'', PStr ''not-a-number'')]]),
        Sent (PList [PInt 2, PStr ''id'', PStr ''ChangeConfiguration'',
                     PDict [(''key'', PStr ''LightIntensity''), (''value'', PStr ''150'')]]),
        Sent (PList [PInt 2, PStr ''id'', PStr ''ChangeConfiguration'',
                     PDict [(''key'', PStr ''LocalAuthorizeOffline''), (''value'', PStr ''yes'')]]),
        Sent (PList [PInt 2, PStr ''id'', PStr ''ChangeConfiguration'',
                     PDict [(''key'', PStr ''UnknownKey''), (''value'', PStr ''value'')]])],
     inbound = [],
     test_results = [(''Invalid value rejection'', False)]\<rparr>)"
  using test_invalid_values_verdict
          [of "\<lambda>k. ''id''"
              "\<lparr>trace = [],
      inbound =
        [Message (Some (PList [PInt 3, PStr ''id'', PDict [(''status'', PStr ''Rejected'')]])),
         Message (Some (PList [PInt 3, PStr ''id'', PDict [(''status'', PStr ''NotSupported'')]])),
         Message (Some (PList [PInt 3, PStr ''id'', PDict [(''status'', PStr ''Rejected'')]])),
         Message (Some (PList [PInt 3, PStr ''id'', PDict [(''status'', PStr ''Accepted'')]]))],
      test_results = []\<rparr>",
           THEN conjunct2, rule_format,
           of "PInt 3" "PStr ''id''" "[(''status'', PStr ''Rejected'')]" "[]"
              "PInt 3" "PStr ''id''" "[(''status'', PStr ''NotSupported'')]" "[]"
              "PInt 3" "PStr ''id''" "[(''status'', PStr ''Rejected'')]" "[]"
              "PInt 3" "PStr ''id''" "[(''status'', PStr ''Accepted'')]" "[]" "[]"]
  by simp

text \<open>
  C9: when the ChangeConfiguration call of \<^verbatim>\<open>test_persistence\<close>
  (MeterValueSampleInterval := "45") is answered with a success result of status Accepted
  or RebootRequired, the test pauses (one second), asks GetConfiguration for that one
  key, and passes exactly when the answer is a success result whose first
  configurationKey entry has the value "45", the value written. The same holds of
  \<^verbatim>\<open>test_change_configuration\<close> (HeartbeatInterval := "900", a pause of half a
  second), which after a pass writes the value it read at the start back.
\<close>

theorem change_then_get_round_trip:
  assumes "inbound v = Message (Some (PList (c1 # i1 # PDict p1 # x1))) # later"
      and "eq_int c1 3"
      and "map_of p1 ''status'' = Some (PStr ''Accepted'') \<or>
           map_of p1 ''status'' = Some (PStr ''RebootRequired'')"
      and "inbound w =
             Message (Some (PList (d0 # j0 # PDict q0 # y0))) #
             Message (Some (PList (d1 # j1 # PDict q1 # y1))) # after"
      and "eq_int d0 3"
      and "map_of q0 ''configurationKey'' = Some (PList (PDict e0 # o0))"
      and "eq_int d1 3"
      and "map_of q1 ''status'' = Some (PStr ''Accepted'') \<or>
           map_of q1 ''status'' = Some (PStr ''RebootRequired'')"
  shows "trace (snd (test_persistence uuid4 v)) =
           trace v @
           [Sent (PList [PInt 2, PStr (uuid4 0), PStr ''ChangeConfiguration'',
                         PDict [(''key'', PStr ''MeterValueSampleInterval''),
                                (''value'', PStr ''45'')]]),
            Slept 1,
            Sent (PList [PInt 2, PStr (uuid4 1), PStr ''GetConfiguration'',
                         PDict [(''key'', PList [PStr ''MeterValueSampleInterval''])]])]
       \<and> (fst (test_persistence uuid4 v) = Inr True \<longleftrightarrow>
            (\<exists>c2 i2 p2 x2 entry others rest.
                later = Message (Some (PList (c2 # i2 # PDict p2 # x2))) # rest \<and> eq_int c2 3 \<and>
                map_of p2 ''configurationKey'' = Some (PList (PDict entry # others)) \<and>
                map_of entry ''value'' = Some (PStr ''45'')))
       \<and> (fst (test_persistence uuid4 v) = Inr True \<longrightarrow>
            test_results (snd (test_persistence uuid4 v)) =
              test_results v @ [(''Configuration persistence'', True)])
       \<and> (fst (test_change_configuration uuid4 w) = Inr True \<longleftrightarrow>
            (\<exists>c2 i2 p2 x2 entry others rest.
                after = Message (Some (PList (c2 # i2 # PDict p2 # x2))) # rest \<and> eq_int c2 3 \<and>
                map_of p2 ''configurationKey'' = Some (PList (PDict entry # others)) \<and>
                map_of entry ''value'' = Some (PStr ''900'')))
       \<and> trace (snd (test_change_configuration uuid4 w)) =
           trace w @
           [Sent (PList [PInt 2, PStr (uuid4 0), PStr ''GetConfiguration'',
                         PDict [(''key'', PList [PStr ''HeartbeatInterval''])]]),
            Sent (PList [PInt 2, PStr (uuid4 1), PStr ''ChangeConfiguration'',
                         PDict [(''key'', PStr ''HeartbeatInterval''),
                                (''value'', PStr ''900'')]]),
            Slept (1 / 2),
            Sent (PList [PInt 2, PStr (uuid4 2), PStr ''GetConfiguration'',
                         PDict [(''key'', PList [PStr ''HeartbeatInterval''])]])]
           @ (if fst (test_change_configuration uuid4 w) = Inr True \<and>
                 truthy (case map_of e0 ''value'' of None \<Rightarrow> PNone | Some x \<Rightarrow> x)
              then [Sent (PList [PInt 2, PStr (uuid4 3), PStr ''ChangeConfiguration'',
                                 PDict [(''key'', PStr ''HeartbeatInterval''),
                                        (''value'', case map_of e0 ''value'' of
                                                      None \<Rightarrow> PNone | Some x \<Rightarrow> x)]])]
              else [])"
  using test_persistence_round_trip [OF assms(1) assms(2) assms(3), of uuid4]
        test_change_configuration_round_trip
          [OF assms(4) assms(5) assms(6) assms(7) assms(8), of uuid4]
  by simp

theorem change_then_get_round_trip_witness:
  "fst (test_persistence (\<lambda>k. ''id'')
     \<lparr>trace = [],
      inbound =
        [Message (Some (PList [PInt 3, PStr ''id'', PDict [(''status'', PStr ''Accepted'')]])),
         Message (Some (PList [PInt 3, PStr ''id'',
            PDict [(''configurationKey'',
                    PList [PDict [(''key'', PStr ''MeterValueSampleInterval''),
                                  (''readonly'', PBool False),
                                  (''value'', PStr ''45'')]])]]))],
      test_results = []\<rparr>) = Inr True \<and>
   fst (test_change_configuration (\<lambda>k. ''id'')
     \<lparr>trace = [],
      inbound =
        [Message (Some (PList [PInt 3, PStr ''id'',
            PDict [(''configurationKey'',
                    PList [PDict [(''key'', PStr ''HeartbeatInterval''),
                                  (''readonly'', PBool False),
                                  (''value'', PStr ''300'')]])]])),
         Message (Some (PList [PInt 3, PStr ''id'', PDict [(''status'', PStr ''Accepted'')]])),
         Message (Some (PList [PInt 3, PStr ''id'',
            PDict [(''configurationKey'',
                    PList [PDict [(''key'', PStr ''HeartbeatInterval''),
                                  (''readonly'', PBool False),
                                  (''value'', PStr ''300'')]])]]))],
      test_results = []\<rparr>) \<noteq> Inr True"
  using change_then_get_round_trip
    [where v = "\<lparr>trace = [],
      inbound =
        [Message (Some (PList [PInt 3, PStr ''id'', PDict [(''status'', PStr ''Accepted'')]])),
         Message (Some (PList [PInt 3, PStr ''id'',
            PDict [(''configurationKey'',
                    PList [PDict [(''key'', PStr ''MeterValueSampleInterval''),
                                  (''readonly'', PBool False),
                                  (''value'', PStr ''45'')]])]]))],
      test_results = []\<rparr>"
       and ?c1.0 = "PInt 3" and ?i1.0 = "PStr ''id''"
       and ?p1.0 = "[(''status'', PStr ''Accepted'')]" and ?x1.0 = "[]"
       and later = "[Message (Some (PList [PInt 3, PStr ''id'',
            PDict [(''configurationKey'',
                    PList [PDict [(''key'', PStr ''MeterValueSampleInterval''),
                                  (''readonly'', PBool False),
                                  (''value'', PStr ''45'')]])]]))]"
       and w = "\<lparr>trace = [],
      inbound =
        [Message (Some (PList [PInt 3, PStr ''id'',
            PDict [(''configurationKey'',
                    PList [PDict [(''key'', PStr ''HeartbeatInterval''),
                                  (''readonly'', PBool False),
                                  (''value'', PStr ''300'')]])]])),
         Message (Some (PList [PInt 3, PStr ''id'', PDict [(''status'', PStr ''Accepted'')]])),
         Message (Some (PList [PInt 3, PStr ''id'',
            PDict [(''configurationKey'',
                    PList [PDict [(''key'', PStr ''HeartbeatInterval''),
                                  (''readonly'', PBool False),
                                  (''value'', PStr ''300'')]])]]))],
      test_results = []\<rparr>"
       and ?d0.0 = "PInt 3" and ?j0.0 = "PStr ''id''"
       and ?q0.0 = "[(''configurationKey'',
                    PList [PDict [(''key'', PStr ''HeartbeatInterval''),
                                  (''readonly'', PBool False),
                                  (''value'', PStr ''300'')]])]"
       and ?y0.0 = "[]"
       and ?e0.0 = "[(''key'', PStr ''HeartbeatInterval''), (''readonly'', PBool False),
                     (''value'', PStr ''300'')]"
       and ?o0.0 = "[]"
       and ?d1.0 = "PInt 3" and ?j1.0 = "PStr ''id''"
       and ?q1.0 = "[(''status'', PStr ''Accepted'')]" and ?y1.0 = "[]"
       and after = "[Message (Some (PList [PInt 3, PStr ''id'',
            PDict [(''configurationKey'',
                    PList [PDict [(''key'', PStr ''HeartbeatInterval''),
                                  (''readonly'', PBool False),
                                  (''value'', PStr ''300'')]])]]))]"
       and ?uuid4.0 = "\<lambda>k. ''id''"]
  by simp

section \<open>The charging loop\<close>


lemma uniform_bounds:
  "a \<le> b \<Longrightarrow> 0 \<le> u \<Longrightarrow> u \<le> 1 \<Longrightarrow> a \<le> uniform a b u \<and> uniform a b u \<le> b"
proof -
  assume ab: "a \<le> b" and u: "0 \<le> u" "u \<le> 1"
  have "0 \<le> (b - a) * u" using ab u by simp
  moreover have "(b - a) * u \<le> (b - a) * 1"
    using ab u by (intro mult_left_mono) simp_all
  ultimately show ?thesis by (simp add: uniform_def)
qed

lemma py_int_truncates:
  "\<bar>x - of_int (py_int x)\<bar> < 1 \<and> \<bar>of_int (py_int x) :: real\<bar> \<le> \<bar>x\<bar>"
  unfolding py_int_def by (cases "x < 0") (simp_all, linarith+)

lemma round_half_even_near: "\<bar>of_int (round_half_even x) - x\<bar> \<le> 1 / 2"
proof -
  define f where "f = \<lfloor>x\<rfloor>"
  have "of_int f \<le> x" "x < of_int f + 1"
    unfolding f_def by linarith+
  then show ?thesis
    unfolding round_half_even_def Let_def f_def [symmetric] by (auto simp: abs_if)
qed

lemma round1_near: "\<bar>round1 x - x\<bar> \<le> 1 / 20"
  using round_half_even_near [of "x * 10"] unfolding round1_def by (simp add: field_simps)

lemma round1_tenths: "\<exists>k::int. round1 x = of_int k / 10"
  unfolding round1_def by blast

lemma round1_nonzero: "1 \<le> x \<Longrightarrow> round1 x \<noteq> 0"
  using round1_near [of x] by linarith

lemma send_meter_values_state:
  assumes "send_meter_values fr rid now e p c u t sim = (r, sim')"
  shows "trace sim' = trace sim @ [Sent (PList [PInt 2, PStr rid, PStr ''MeterValues'',
            PDict (message_data now (sampled_values fr e p c u t) (transaction_id sim))])]"
    and "transaction_id sim' = transaction_id sim"
  using assms send_meter_values_trace [of fr rid now e p c u t sim]
  by (auto simp: send_meter_values_def Let_def split: prod.splits sum.splits
      dest: recv_send_transaction_id)

lemma charging_loop_extends:
  "\<exists>later. trace (snd (charging_loop fr st dur i e envs sim)) = trace sim @ later"
proof (induction envs arbitrary: e sim)
  case Nil
  then show ?case by simp
next
  case (Cons env envs)
  show ?case
  proof (cases "clock env - st < dur")
    case False
    then show ?thesis by simp
  next
    case True
    let ?s = "tick i e env"
    obtain r sim1 where
      sent: "send_meter_values fr (tick_id env) (tick_utcnow env)
               (NInt (py_int (energy_wh ?s))) (NInt (py_int (power_w ?s)))
               (Some (NFloat (round1 (current_a ?s)))) (Some (NFloat (round1 (voltage_v ?s))))
               (Some (NFloat (round1 (temperature_c ?s)))) sim = (r, sim1)"
      by (metis prod.collapse)
    note st1 = send_meter_values_state [OF sent]
    show ?thesis
    proof (cases r)
      case (Inl f)
      with True sent st1 show ?thesis by (simp add: Let_def)
    next
      case (Inr ok)
      from Cons.IH [of "energy_wh ?s" "sleep i sim1"] obtain later where
        "trace (snd (charging_loop fr st dur i (energy_wh ?s) envs (sleep i sim1))) =
           trace (sleep i sim1) @ later" by blast
      with Inr True sent st1 show ?thesis by (simp add: Let_def sleep_def)
    qed
  qed
qed

lemma sampled_values_all_present:
  assumes "c \<noteq> 0" "u \<noteq> 0" "t \<noteq> 0"
  shows "sampled_values fr (NInt e) (NInt p) (Some (NFloat c)) (Some (NFloat u)) (Some (NFloat t)) =
           [sampled_value (str_int e) ''Energy.Active.Import.Register'' ''Wh'',
            sampled_value (str_int p) ''Power.Active.Import'' ''W'',
            sampled_value (fr c) ''Current.Import'' ''A'',
            sampled_value (fr u) ''Voltage'' ''V'',
            sampled_value (fr t) ''Temperature'' ''Celsius'']"
  using assms by (simp add: sampled_values_def)

lemma tick_values:
  "power_w (tick i e env) = 7400 + uniform (- 500) 500 (draw_power env)"
  "energy_wh (tick i e env) = e + power_w (tick i e env) * i / 3600"
  "current_a (tick i e env) = power_w (tick i e env) / 230"
  "temperature_c (tick i e env) = 25 + uniform (- 5) 10 (draw_temperature env)"
  "voltage_v (tick i e env) = 230 + uniform (- 5) 5 (draw_voltage env)"
  by (simp_all add: tick_def Let_def base_power_def voltage_def)

text \<open>
  C5: in one pass of the loop, with the three draws of \<^verbatim>\<open>random()\<close> between 0 and 1,
  the power is the nominal 7400 plus a perturbation in [-500, 500]; the current is the
  power divided by the nominal voltage 230; the voltage is 230 plus a perturbation in
  [-5, 5]; the temperature is 25 plus a perturbation in [-5, 10]; and the energy grows by
  power * interval / 3600. The MeterValues message of the pass reports energy and power
  as integers (the whole part, as \<^verbatim>\<open>int()\<close> gives it) and current, voltage and
  temperature as multiples of a tenth within 0.05 of the value.
\<close>

theorem tick_readings:
  assumes "0 \<le> draw_power env" "draw_power env \<le> 1"
      and "0 \<le> draw_temperature env" "draw_temperature env \<le> 1"
      and "0 \<le> draw_voltage env" "draw_voltage env \<le> 1"
      and "clock env - start_time < duration_seconds"
  shows "(\<exists>d. - 500 \<le> d \<and> d \<le> 500 \<and> power_w (tick interval energy env) = 7400 + d)
       \<and> current_a (tick interval energy env) = power_w (tick interval energy env) / 230
       \<and> (\<exists>d. - 5 \<le> d \<and> d \<le> 5 \<and> voltage_v (tick interval energy env) = 230 + d)
       \<and> (\<exists>d. - 5 \<le> d \<and> d \<le> 10 \<and> temperature_c (tick interval energy env) = 25 + d)
       \<and> energy_wh (tick interval energy env) =
           energy + power_w (tick interval energy env) * interval / 3600
       \<and> (\<exists>E P C V T later.
            trace (snd (charging_loop float_repr start_time duration_seconds interval energy
                          (env # envs) sim)) =
              trace sim @
              Sent (PList [PInt 2, PStr (tick_id env), PStr ''MeterValues'',
                 PDict (message_data (tick_utcnow env)
                   [sampled_value (str_int E) ''Energy.Active.Import.Register'' ''Wh'',
                    sampled_value (str_int P) ''Power.Active.Import'' ''W'',
                    sampled_value (float_repr C) ''Current.Import'' ''A'',
                    sampled_value (float_repr V) ''Voltage'' ''V'',
                    sampled_value (float_repr T) ''Temperature'' ''Celsius'']
                   (transaction_id sim))]) # later
          \<and> \<bar>energy_wh (tick interval energy env) - of_int E\<bar> < 1
          \<and> \<bar>of_int E\<bar> \<le> \<bar>energy_wh (tick interval energy env)\<bar>
          \<and> \<bar>power_w (tick interval energy env) - of_int P\<bar> < 1
          \<and> \<bar>of_int P\<bar> \<le> \<bar>power_w (tick interval energy env)\<bar>
          \<and> \<bar>C - current_a (tick interval energy env)\<bar> \<le> 1 / 20 \<and> (\<exists>k::int. C = of_int k / 10)
          \<and> \<bar>V - voltage_v (tick interval energy env)\<bar> \<le> 1 / 20 \<and> (\<exists>k::int. V = of_int k / 10)
          \<and> \<bar>T - temperature_c (tick interval energy env)\<bar> \<le> 1 / 20 \<and> (\<exists>k::int. T = of_int k / 10))"
proof -
  let ?s = "tick interval energy env"
  let ?E = "py_int (energy_wh ?s)" and ?P = "py_int (power_w ?s)"
  let ?C = "round1 (current_a ?s)" and ?V = "round1 (voltage_v ?s)"
  let ?T = "round1 (temperature_c ?s)"
  have dp: "- 500 \<le> uniform (- 500) 500 (draw_power env) \<and> uniform (- 500) 500 (draw_power env) \<le> 500"
    using assms(1,2) by (intro uniform_bounds) simp_all
  have dt: "- 5 \<le> uniform (- 5) 10 (draw_temperature env) \<and> uniform (- 5) 10 (draw_temperature env) \<le> 10"
    using assms(3,4) by (intro uniform_bounds) simp_all
  have dv: "- 5 \<le> uniform (- 5) 5 (draw_voltage env) \<and> uniform (- 5) 5 (draw_voltage env) \<le> 5"
    using assms(5,6) by (intro uniform_bounds) simp_all
  have nz: "?C \<noteq> 0" "?V \<noteq> 0" "?T \<noteq> 0"
    using dp dt dv by (auto intro!: round1_nonzero simp: tick_values)
  obtain r sim1 where
    sent: "send_meter_values float_repr (tick_id env) (tick_utcnow env)
             (NInt ?E) (NInt ?P) (Some (NFloat ?C)) (Some (NFloat ?V)) (Some (NFloat ?T)) sim =
           (r, sim1)"
    by (metis prod.collapse)
  note st1 = send_meter_values_state [OF sent]
  let ?msg = "Sent (PList [PInt 2, PStr (tick_id env), PStr ''MeterValues'',
                 PDict (message_data (tick_utcnow env)
                   [sampled_value (str_int ?E) ''Energy.Active.Import.Register'' ''Wh'',
                    sampled_value (str_int ?P) ''Power.Active.Import'' ''W'',
                    sampled_value (float_repr ?C) ''Current.Import'' ''A'',
                    sampled_value (float_repr ?V) ''Voltage'' ''V'',
                    sampled_value (float_repr ?T) ''Temperature'' ''Celsius'']
                   (transaction_id sim))])"
  have t1: "trace sim1 = trace sim @ [?msg]"
    using st1(1) nz by (simp add: sampled_values_all_present)
  have "\<exists>later. trace (snd (charging_loop float_repr start_time duration_seconds interval energy
                          (env # envs) sim)) = trace sim @ ?msg # later"
  proof (cases r)
    case (Inl f)
    with assms(7) sent t1 show ?thesis by (simp add: Let_def)
  next
    case (Inr ok)
    obtain later where
      "trace (snd (charging_loop float_repr start_time duration_seconds interval (energy_wh ?s)
                     envs (sleep interval sim1))) = trace (sleep interval sim1) @ later"
      using charging_loop_extends by blast
    with Inr assms(7) sent t1 show ?thesis by (simp add: Let_def sleep_def)
  qed
  then obtain later where
    tr: "trace (snd (charging_loop float_repr start_time duration_seconds interval energy
                          (env # envs) sim)) = trace sim @ ?msg # later" by blast
  have whole:
      "\<bar>energy_wh ?s - of_int ?E\<bar> < 1" "\<bar>of_int ?E\<bar> \<le> \<bar>energy_wh ?s\<bar>"
      "\<bar>power_w ?s - of_int ?P\<bar> < 1" "\<bar>of_int ?P\<bar> \<le> \<bar>power_w ?s\<bar>"
    using py_int_truncates [of "energy_wh ?s"] py_int_truncates [of "power_w ?s"]
    by blast+
  have near:
      "\<bar>?C - current_a ?s\<bar> \<le> 1 / 20" "\<bar>?V - voltage_v ?s\<bar> \<le> 1 / 20"
      "\<bar>?T - temperature_c ?s\<bar> \<le> 1 / 20"
    by (rule round1_near)+
  have tenths:
      "\<exists>k::int. ?C = of_int k / 10" "\<exists>k::int. ?V = of_int k / 10"
      "\<exists>k::int. ?T = of_int k / 10"
    by (rule round1_tenths)+
  have reported: "\<exists>E P C V T later.
            trace (snd (charging_loop float_repr start_time duration_seconds interval energy
                          (env # envs) sim)) =
              trace sim @
              Sent (PList [PInt 2, PStr (tick_id env), PStr ''MeterValues'',
                 PDict (message_data (tick_utcnow env)
                   [sampled_value (str_int E) ''Energy.Active.Import.Register'' ''Wh'',
                    sampled_value (str_int P) ''Power.Active.Import'' ''W'',
                    sampled_value (float_repr C) ''Current.Import'' ''A'',
                    sampled_value (float_repr V) ''Voltage'' ''V'',
                    sampled_value (float_repr T) ''Temperature'' ''Celsius'']
                   (transaction_id sim))]) # later
          \<and> \<bar>energy_wh ?s - of_int E\<bar> < 1
          \<and> \<bar>of_int E\<bar> \<le> \<bar>energy_wh ?s\<bar>
          \<and> \<bar>power_w ?s - of_int P\<bar> < 1
          \<and> \<bar>of_int P\<bar> \<le> \<bar>power_w ?s\<bar>
          \<and> \<bar>C - current_a ?s\<bar> \<le> 1 / 20 \<and> (\<exists>k::int. C = of_int k / 10)
          \<and> \<bar>V - voltage_v ?s\<bar> \<le> 1 / 20 \<and> (\<exists>k::int. V = of_int k / 10)
          \<and> \<bar>T - temperature_c ?s\<bar> \<le> 1 / 20 \<and> (\<exists>k::int. T = of_int k / 10)"
    apply (rule exI [of _ ?E])
    apply (rule exI [of _ ?P])
    apply (rule exI [of _ ?C])
    apply (rule exI [of _ ?V])
    apply (rule exI [of _ ?T])
    apply (rule exI [of _ later])
    using tr whole near tenths by blast
  show ?thesis
    using dp dt dv reported by (simp add: tick_values)
qed

theorem tick_readings_witness:
  "6900 \<le> power_w (tick 5 1000
       \<lparr>clock = 0, draw_power = 1 / 2, draw_temperature = 1 / 2, draw_voltage = 1 / 2,
        tick_id = ''a'', tick_utcnow = ''t''\<rparr>) \<and>
   power_w (tick 5 1000
       \<lparr>clock = 0, draw_power = 1 / 2, draw_temperature = 1 / 2, draw_voltage = 1 / 2,
        tick_id = ''a'', tick_utcnow = ''t''\<rparr>) \<le> 7900 \<and>
   energy_wh (tick 5 1000
       \<lparr>clock = 0, draw_power = 1 / 2, draw_temperature = 1 / 2, draw_voltage = 1 / 2,
        tick_id = ''a'', tick_utcnow = ''t''\<rparr>) =
     1000 + power_w (tick 5 1000
       \<lparr>clock = 0, draw_power = 1 / 2, draw_temperature = 1 / 2, draw_voltage = 1 / 2,
        tick_id = ''a'', tick_utcnow = ''t''\<rparr>) * 5 / 3600"
  using tick_readings
          [of "\<lparr>clock = 0, draw_power = 1 / 2, draw_temperature = 1 / 2, draw_voltage = 1 / 2,
                tick_id = ''a'', tick_utcnow = ''t''\<rparr>" 0 10 5 1000 "\<lambda>r. ''f''" "[]"
              "\<lparr>trace = [], inbound = [], transaction_id = PNone\<rparr>"]
  by auto

lemma energy_after_Nil [simp]: "energy_after e i [] = e"
  by (simp add: energy_after_def)

lemma energy_after_Cons: "energy_after e i (p # ps) = energy_after (e + p * i / 3600) i ps"
  by (simp add: energy_after_def)

lemma energy_after_append:
  "energy_after e i (ps @ qs) = energy_after (energy_after e i ps) i qs"
  by (simp add: energy_after_def)

lemma energy_after_grows:
  assumes "0 \<le> i" and "\<forall>p \<in> set ps. 0 \<le> p"
  shows "e \<le> energy_after e i ps"
proof -
  have "0 \<le> (\<Sum>p\<leftarrow>ps. p * i / 3600)"
    using assms by (intro sum_list_nonneg) auto
  then show ?thesis by (simp add: energy_after_def)
qed

lemma energy_after_mono:
  assumes "0 \<le> i" and "\<forall>p \<in> set ps. 0 \<le> p" and "j \<le> k"
  shows "energy_after e i (take j ps) \<le> energy_after e i (take k ps)"
proof -
  have "take k ps = take j ps @ take (k - j) (drop j ps)"
    using assms(3) by (metis le_add_diff_inverse take_add)
  moreover have "\<forall>p \<in> set (take (k - j) (drop j ps)). 0 \<le> p"
    using assms(2) by (meson in_set_dropD in_set_takeD)
  ultimately show ?thesis
    using energy_after_grows [OF assms(1), of "take (k - j) (drop j ps)"]
    by (simp add: energy_after_append)
qed

lemma charging_loop_returns:
  assumes "charging_loop fr st dur i e envs sim = (Inr e', sim')"
  shows "length (takeWhile (\<lambda>env. clock env - st < dur) envs) < length envs
       \<and> e' = energy_after e i
               (map (\<lambda>env. 7400 + uniform (- 500) 500 (draw_power env))
                    (takeWhile (\<lambda>env. clock env - st < dur) envs))
       \<and> length (trace sim') =
           length (trace sim) + 2 * length (takeWhile (\<lambda>env. clock env - st < dur) envs)
       \<and> transaction_id sim' = transaction_id sim"
  using assms
proof (induction envs arbitrary: e sim)
  case Nil
  then show ?case by simp
next
  case (Cons env envs)
  show ?case
  proof (cases "clock env - st < dur")
    case False
    with Cons.prems show ?thesis by simp
  next
    case True
    let ?s = "tick i e env"
    obtain r sim1 where
      sent: "send_meter_values fr (tick_id env) (tick_utcnow env)
               (NInt (py_int (energy_wh ?s))) (NInt (py_int (power_w ?s)))
               (Some (NFloat (round1 (current_a ?s)))) (Some (NFloat (round1 (voltage_v ?s))))
               (Some (NFloat (round1 (temperature_c ?s)))) sim = (r, sim1)"
      by (metis prod.collapse)
    note st1 = send_meter_values_state [OF sent]
    from Cons.prems True sent obtain ok where r: "r = Inr ok"
      by (cases r) (simp_all add: Let_def)
    with Cons.prems True sent have
      rec: "charging_loop fr st dur i (energy_wh ?s) envs (sleep i sim1) = (Inr e', sim')"
      by (simp add: Let_def)
    from Cons.IH [OF rec] True st1 show ?thesis
      by (simp add: energy_after_Cons tick_values sleep_def)
  qed
qed

lemma py_int_mono:
  assumes "x \<le> y"
  shows "py_int x \<le> py_int y"
proof (cases "x < 0")
  case neg: True
  show ?thesis
  proof (cases "y < 0")
    case True
    with neg assms show ?thesis by (simp add: py_int_def ceiling_mono)
  next
    case False
    from neg have "\<lceil>x\<rceil> \<le> 0" by (simp add: ceiling_le_iff)
    moreover from False have "0 \<le> \<lfloor>y\<rfloor>" by simp
    ultimately have "\<lceil>x\<rceil> \<le> \<lfloor>y\<rfloor>" by (rule order_trans)
    with neg False show ?thesis by (simp add: py_int_def)
  qed
next
  case False
  with assms show ?thesis by (simp add: py_int_def floor_mono)
qed


lemma charging_loop_reports_any:
  assumes "length (trace sim) + 2 * k < length (trace (snd (charging_loop fr st dur i e envs sim)))"
  shows "\<exists>p c v t.
           trace (snd (charging_loop fr st dur i e envs sim)) ! (length (trace sim) + 2 * k) =
             Sent (PList [PInt 2, PStr (tick_id (envs ! k)), PStr ''MeterValues'',
                PDict (message_data (tick_utcnow (envs ! k))
                  (sampled_values fr
                     (NInt (py_int (energy_after e i
                        (take (Suc k)
                           (map (\<lambda>env. 7400 + uniform (- 500) 500 (draw_power env)) envs)))))
                     p c v t)
                  (transaction_id sim))])"
  using assms
proof (induction envs arbitrary: e sim k)
  case Nil
  then show ?case by simp
next
  case (Cons env envs)
  show ?case
  proof (cases "clock env - st < dur")
    case False
    with Cons.prems show ?thesis by simp
  next
    case guard: True
    let ?s = "tick i e env"
    let ?msg = "Sent (PList [PInt 2, PStr (tick_id env), PStr ''MeterValues'',
                   PDict (message_data (tick_utcnow env)
                     (sampled_values fr (NInt (py_int (energy_wh ?s))) (NInt (py_int (power_w ?s)))
                        (Some (NFloat (round1 (current_a ?s))))
                        (Some (NFloat (round1 (voltage_v ?s))))
                        (Some (NFloat (round1 (temperature_c ?s)))))
                     (transaction_id sim))])"
    obtain r sim1 where
      sent: "send_meter_values fr (tick_id env) (tick_utcnow env)
               (NInt (py_int (energy_wh ?s))) (NInt (py_int (power_w ?s)))
               (Some (NFloat (round1 (current_a ?s)))) (Some (NFloat (round1 (voltage_v ?s))))
               (Some (NFloat (round1 (temperature_c ?s)))) sim = (r, sim1)"
      by (metis prod.collapse)
    note st1 = send_meter_values_state [OF sent]
    have e1: "energy_wh ?s = e + (7400 + uniform (- 500) 500 (draw_power env)) * i / 3600"
      by (simp add: tick_values)
    have first: "\<exists>p c v t. ?msg =
             Sent (PList [PInt 2, PStr (tick_id ((env # envs) ! 0)), PStr ''MeterValues'',
                PDict (message_data (tick_utcnow ((env # envs) ! 0))
                  (sampled_values fr
                     (NInt (py_int (energy_after e i
                        (take (Suc 0)
                           (map (\<lambda>env. 7400 + uniform (- 500) 500 (draw_power env))
                              (env # envs))))))
                     p c v t)
                  (transaction_id sim))])"
      using e1 by (auto simp: energy_after_Cons)
    show ?thesis
    proof (cases r)
      case (Inl f)
      with guard sent have
        res: "charging_loop fr st dur i e (env # envs) sim = (Inl f, sim1)"
        by (simp add: Let_def)
      with Cons.prems st1 have "k = 0" by simp
      with res st1 first show ?thesis by simp
    next
      case (Inr ok)
      with guard sent have
        res: "charging_loop fr st dur i e (env # envs) sim =
                charging_loop fr st dur i (energy_wh ?s) envs (sleep i sim1)"
        by (simp add: Let_def)
      have t2: "trace (sleep i sim1) = trace sim @ [?msg, Slept i]"
        using st1 by (simp add: sleep_def)
      show ?thesis
      proof (cases k)
        case 0
        obtain later where
          "trace (snd (charging_loop fr st dur i (energy_wh ?s) envs (sleep i sim1))) =
             trace (sleep i sim1) @ later"
          using charging_loop_extends by blast
        with t2 have
          "trace (snd (charging_loop fr st dur i (energy_wh ?s) envs (sleep i sim1))) !
             length (trace sim) = ?msg"
          by (simp add: nth_append)
        with 0 res first show ?thesis by simp
      next
        case (Suc k')
        with Cons.prems res t2 have
          "length (trace (sleep i sim1)) + 2 * k' <
             length (trace (snd (charging_loop fr st dur i (energy_wh ?s) envs (sleep i sim1))))"
          by simp
        from Cons.IH [OF this] obtain p c v t where
          "trace (snd (charging_loop fr st dur i (energy_wh ?s) envs (sleep i sim1))) !
             (length (trace (sleep i sim1)) + 2 * k') =
             Sent (PList [PInt 2, PStr (tick_id (envs ! k')), PStr ''MeterValues'',
                PDict (message_data (tick_utcnow (envs ! k'))
                  (sampled_values fr
                     (NInt (py_int (energy_after (energy_wh ?s) i
                        (take (Suc k')
                           (map (\<lambda>env. 7400 + uniform (- 500) 500 (draw_power env)) envs)))))
                     p c v t)
                  (transaction_id (sleep i sim1)))])"
          by blast
        with Suc res t2 st1 e1 show ?thesis
          by (auto simp: energy_after_Cons sleep_def)
      qed
    qed
  qed
qed

text \<open>
  C3: with an interval that is not negative and draws of \<^verbatim>\<open>random()\<close> between 0 and
  1, the cumulative energy after \<open>k\<close> passes of the loop is the starting energy plus the
  sum over the passes of power * interval / 3600; it never decreases from one pass to the
  next, and neither does the integer reported. The \<open>k\<close>-th MeterValues message of a run
  reports the whole part of that sum, and a run that leaves the loop returns the sum over
  the passes it made, two actions (the message and the pause) to a pass.
\<close>

theorem energy_accumulates:
  assumes "0 \<le> interval"
      and "\<forall>env \<in> set envs. 0 \<le> draw_power env \<and> draw_power env \<le> 1"
  shows "(\<forall>j k. j \<le> k \<longrightarrow>
            energy_after start_energy interval
              (take j (map (\<lambda>env. 7400 + uniform (- 500) 500 (draw_power env)) envs))
            \<le> energy_after start_energy interval
              (take k (map (\<lambda>env. 7400 + uniform (- 500) 500 (draw_power env)) envs))
          \<and> py_int (energy_after start_energy interval
              (take j (map (\<lambda>env. 7400 + uniform (- 500) 500 (draw_power env)) envs)))
            \<le> py_int (energy_after start_energy interval
              (take k (map (\<lambda>env. 7400 + uniform (- 500) 500 (draw_power env)) envs))))
       \<and> (\<forall>k. length (trace sim) + 2 * k <
                 length (trace (snd (charging_loop float_repr start_time duration_seconds
                                        interval start_energy envs sim))) \<longrightarrow>
            (\<exists>p c v t.
               trace (snd (charging_loop float_repr start_time duration_seconds
                             interval start_energy envs sim)) ! (length (trace sim) + 2 * k) =
                 Sent (PList [PInt 2, PStr (tick_id (envs ! k)), PStr ''MeterValues'',
                   PDict (message_data (tick_utcnow (envs ! k))
                     (sampled_values float_repr
                        (NInt (py_int (energy_after start_energy interval
                           (take (Suc k)
                              (map (\<lambda>env. 7400 + uniform (- 500) 500 (draw_power env)) envs)))))
                        p c v t)
                     (transaction_id sim))])))
       \<and> (\<forall>final_energy sim'.
            charging_loop float_repr start_time duration_seconds interval start_energy envs sim =
              (Inr final_energy, sim') \<longrightarrow>
            final_energy =
              energy_after start_energy interval
                (take (length (takeWhile (\<lambda>env. clock env - start_time < duration_seconds) envs))
                   (map (\<lambda>env. 7400 + uniform (- 500) 500 (draw_power env)) envs))
            \<and> length (trace sim') =
                length (trace sim) +
                2 * length (takeWhile (\<lambda>env. clock env - start_time < duration_seconds) envs))"
proof -
  let ?power = "\<lambda>env. 7400 + uniform (- 500) 500 (draw_power env)"
  have nonneg: "\<forall>p \<in> set (map ?power envs). 0 \<le> p"
  proof
    fix p assume "p \<in> set (map ?power envs)"
    then obtain env where env: "env \<in> set envs" "p = ?power env"
      by auto
    with assms(2) have "- 500 \<le> uniform (- 500) 500 (draw_power env)"
      using uniform_bounds [of "- 500" 500 "draw_power env"] by simp
    with env show "0 \<le> p" by simp
  qed
  have mono: "\<forall>j k. j \<le> k \<longrightarrow>
            energy_after start_energy interval (take j (map ?power envs))
            \<le> energy_after start_energy interval (take k (map ?power envs))
          \<and> py_int (energy_after start_energy interval (take j (map ?power envs)))
            \<le> py_int (energy_after start_energy interval (take k (map ?power envs)))"
  proof (intro allI impI)
    fix j k :: nat
    assume "j \<le> k"
    from energy_after_mono [OF assms(1) nonneg this]
    show "energy_after start_energy interval (take j (map ?power envs))
            \<le> energy_after start_energy interval (take k (map ?power envs))
          \<and> py_int (energy_after start_energy interval (take j (map ?power envs)))
            \<le> py_int (energy_after start_energy interval (take k (map ?power envs)))"
      by (simp add: py_int_mono)
  qed
  have reports: "\<forall>k. length (trace sim) + 2 * k <
                 length (trace (snd (charging_loop float_repr start_time duration_seconds
                                        interval start_energy envs sim))) \<longrightarrow>
            (\<exists>p c v t.
               trace (snd (charging_loop float_repr start_time duration_seconds
                             interval start_energy envs sim)) ! (length (trace sim) + 2 * k) =
                 Sent (PList [PInt 2, PStr (tick_id (envs ! k)), PStr ''MeterValues'',
                   PDict (message_data (tick_utcnow (envs ! k))
                     (sampled_values float_repr
                        (NInt (py_int (energy_after start_energy interval
                           (take (Suc k) (map ?power envs)))))
                        p c v t)
                     (transaction_id sim))]))"
    by (intro allI impI) (rule charging_loop_reports_any)
  have takes: "take (length (takeWhile (\<lambda>env. clock env - start_time < duration_seconds) envs))
            (map ?power envs) =
          map ?power (takeWhile (\<lambda>env. clock env - start_time < duration_seconds) envs)"
    unfolding take_map by (simp add: takeWhile_eq_take [symmetric])
  have final: "\<forall>final_energy sim'.
            charging_loop float_repr start_time duration_seconds interval start_energy envs sim =
              (Inr final_energy, sim') \<longrightarrow>
            final_energy =
              energy_after start_energy interval
                (take (length (takeWhile (\<lambda>env. clock env - start_time < duration_seconds) envs))
                   (map ?power envs))
            \<and> length (trace sim') =
                length (trace sim) +
                2 * length (takeWhile (\<lambda>env. clock env - start_time < duration_seconds) envs)"
  proof (intro allI impI)
    fix final_energy sim'
    assume "charging_loop float_repr start_time duration_seconds interval start_energy envs sim =
              (Inr final_energy, sim')"
    from charging_loop_returns [OF this]
    show "final_energy =
              energy_after start_energy interval
                (take (length (takeWhile (\<lambda>env. clock env - start_time < duration_seconds) envs))
                   (map ?power envs))
            \<and> length (trace sim') =
                length (trace sim) +
                2 * length (takeWhile (\<lambda>env. clock env - start_time < duration_seconds) envs)"
      unfolding takes by simp
  qed
  show ?thesis
    by (rule conjI [OF mono conjI [OF reports final]])
qed

theorem energy_accumulates_witness:
  "\<exists>p c v t.
     trace (snd (charging_loop (\<lambda>r. ''f'') 0 10 5 1000
       [\<lparr>clock = 0, draw_power = 1 / 2, draw_temperature = 1 / 2, draw_voltage = 1 / 2,
         tick_id = ''a'', tick_utcnow = ''t''\<rparr>,
        \<lparr>clock = 5, draw_power = 1, draw_temperature = 0, draw_voltage = 1,
         tick_id = ''b'', tick_utcnow = ''u''\<rparr>,
        \<lparr>clock = 10, draw_power = 0, draw_temperature = 0, draw_voltage = 0,
         tick_id = ''c'', tick_utcnow = ''v''\<rparr>]
       \<lparr>trace = [], inbound = [Message None, Message None], transaction_id = PInt 1\<rparr>)) ! 2 =
     Sent (PList [PInt 2, PStr ''b'', PStr ''MeterValues'',
             PDict (message_data ''u'' (sampled_values (\<lambda>r. ''f'') (NInt 1021) p c v t) (PInt 1))])"
proof -
  let ?envs = "[\<lparr>clock = 0, draw_power = 1 / 2, draw_temperature = 1 / 2, draw_voltage = 1 / 2,
         tick_id = ''a'', tick_utcnow = ''t''\<rparr>,
        \<lparr>clock = 5, draw_power = 1, draw_temperature = 0, draw_voltage = 1,
         tick_id = ''b'', tick_utcnow = ''u''\<rparr>,
        \<lparr>clock = 10 :: real, draw_power = 0, draw_temperature = 0, draw_voltage = 0,
         tick_id = ''c'', tick_utcnow = ''v''\<rparr>]"
  let ?sim = "\<lparr>trace = [], inbound = [Message None, Message None], transaction_id = PInt 1\<rparr>"
  have len: "length (trace (snd (charging_loop (\<lambda>r. ''f'') 0 10 5 1000 ?envs ?sim))) = 4"
    by (simp add: send_meter_values_def Let_def ws_recv_def ws_send_def sleep_def)
  have draws: "\<forall>env \<in> set ?envs. 0 \<le> draw_power env \<and> draw_power env \<le> 1"
    by simp
  have prem: "length (trace ?sim) + 2 * 1 <
                length (trace (snd (charging_loop (\<lambda>r. ''f'') 0 10 5 1000 ?envs ?sim)))"
    unfolding len by simp
  have val: "py_int (energy_after 1000 5
               (take (Suc 1) (map (\<lambda>env. 7400 + uniform (- 500) 500 (draw_power env)) ?envs))) =
             1021"
    by (simp add: energy_after_def uniform_def py_int_def)
  have "(0::real) \<le> 5" by simp
  from energy_accumulates [OF this draws, of 1000 ?sim "\<lambda>r. ''f''" 0 10,
          THEN conjunct2, THEN conjunct1, rule_format, OF prem]
  show ?thesis
    unfolding val by (simp del: charging_loop.simps add: numeral_2_eq_2)
qed

text \<open>
  In a whole session the loop starts from 1000 Wh, whatever StartTransaction returned, and
  the StopTransaction call carries the whole part of the energy the loop ended with.
\<close>

lemma session_stops_at_final_energy:
  assumes "start_transaction (start_id env) (start_utcnow env) sim = (Inr started, sim1)"
      and "charging_loop float_repr (start_clock env) duration_seconds interval 1000
             (passes env) sim1 = (Inr energy, sim2)"
  shows "simulate_charging_session float_repr env duration_seconds interval sim =
           stop_transaction (stop_id env) (stop_utcnow env) (py_int energy) sim2"
  using assms by (simp add: simulate_charging_session_def)

end
